theory Spec2Isabelle
  imports Main
begin

section \<open>JavaScript values\<close>

text \<open>
  The values that flow through \<^verbatim>\<open>lib/sessionStore.js\<close>: primitives, arrays and
  plain data objects (an association list of own data properties), the error objects
  built by \<^verbatim>\<open>thorin.error(code, message)\<close>, and instances of \<^verbatim>\<open>SessionData\<close>.
  Numbers are restricted to integers. A string is the list of its bytes in UTF-8: the
  two characters the module looks for, the delimiter and the marker, are single bytes
  that are part of no longer character. \<open>JStringObj s\<close> is the wrapper object
  \<^verbatim>\<open>new String(s)\<close>: an object, not a string, that has every method of a string.
  Functions are not values of this model, so a string and a wrapper object are the only
  values with a callable \<^verbatim>\<open>split\<close>.
\<close>

text \<open>
  Modelled from the spec: the class \<^verbatim>\<open>SessionData\<close> of \<^verbatim>\<open>lib/sessionData.js\<close> is
  not part of the sources at hand. The store only reads an instance's \<^verbatim>\<open>id\<close>, the
  result of \<^verbatim>\<open>getData()\<close> and the result of \<^verbatim>\<open>shouldSave()\<close>, and never changes
  it; \<open>JSession i d s\<close> is an instance with these three readings, in this order.
\<close>

datatype jsval =
    JUndefined
  | JNull
  | JBool bool
  | JNum int
  | JStr string
  | JStringObj string
  | JArr "jsval list"
  | JObj "(string \<times> jsval) list"
  | JError string string
  | JSession jsval jsval jsval

text \<open>What a call can throw: the two built-in errors met here, or a thrown value.\<close>

datatype exn = TypeError | SyntaxError | Thrown jsval

fun truthy :: "jsval \<Rightarrow> bool" where
  "truthy JUndefined = False"
| "truthy JNull = False"
| "truthy (JBool b) = b"
| "truthy (JNum n) = (n \<noteq> 0)"
| "truthy (JStr s) = (s \<noteq> [])"
| "truthy (JStringObj s) = True"
| "truthy (JArr xs) = True"
| "truthy (JObj kvs) = True"
| "truthy (JError c m) = True"
| "truthy (JSession i d s) = True"

fun typeof_js :: "jsval \<Rightarrow> string" where
  "typeof_js JUndefined = ''undefined''"
| "typeof_js JNull = ''object''"
| "typeof_js (JBool b) = ''boolean''"
| "typeof_js (JNum n) = ''number''"
| "typeof_js (JStr s) = ''string''"
| "typeof_js (JStringObj s) = ''object''"
| "typeof_js (JArr xs) = ''object''"
| "typeof_js (JObj kvs) = ''object''"
| "typeof_js (JError c m) = ''object''"
| "typeof_js (JSession i d s) = ''object''"

text \<open>\<^verbatim>\<open>v == null\<close>: true of \<^verbatim>\<open>null\<close> and \<^verbatim>\<open>undefined\<close> only.\<close>

fun loose_null :: "jsval \<Rightarrow> bool" where
  "loose_null JUndefined = True"
| "loose_null JNull = True"
| "loose_null v = False"

text \<open>\<^verbatim>\<open>v instanceof SessionData\<close>.\<close>

fun instanceof_SessionData :: "jsval \<Rightarrow> bool" where
  "instanceof_SessionData (JSession i d s) = True"
| "instanceof_SessionData v = False"

text \<open>
  \<^verbatim>\<open>v.k\<close> for the property names the module reads (\<^verbatim>\<open>secret\<close>, \<^verbatim>\<open>encrypt\<close>,
  \<^verbatim>\<open>expire\<close>, \<^verbatim>\<open>type\<close>, \<^verbatim>\<open>path\<close>, \<^verbatim>\<open>id\<close>), none of which is a built-in
  property of a primitive or an array. Reading a property of \<^verbatim>\<open>null\<close> or
  \<^verbatim>\<open>undefined\<close> throws: \<^verbatim>\<open>createStore\<close> below tests its argument for these two
  before it reads, and the options are neither of them, since the module read
  \<^verbatim>\<open>opt.logger\<close> when it was set up.
\<close>

fun js_prop :: "jsval \<Rightarrow> string \<Rightarrow> jsval" where
  "js_prop (JObj kvs) k = (case map_of kvs k of None \<Rightarrow> JUndefined | Some v \<Rightarrow> v)"
| "js_prop (JSession i d s) k = (if k = ''id'' then i else JUndefined)"
| "js_prop (JError c m) k =
     (if k = ''code'' then JStr c else if k = ''message'' then JStr m else JUndefined)"
| "js_prop v k = JUndefined"

text \<open>
  \<^verbatim>\<open>s.split(c)\<close> for a separator of one character: every occurrence of the separator
  ends a segment, empty segments are kept, and the result is never empty.
\<close>

fun split_js :: "string \<Rightarrow> char \<Rightarrow> string list" where
  "split_js [] c = [[]]"
| "split_js (x # xs) c =
     (if x = c then [] # split_js xs c
      else (case split_js xs c of [] \<Rightarrow> [[x]] | seg # segs \<Rightarrow> (x # seg) # segs))"

text \<open>
  The receiver of \<^verbatim>\<open>v.split(c)\<close>: a string and a wrapper object split their text
  (the segments are strings in both cases); every other value of the model has no
  callable \<^verbatim>\<open>split\<close>, and the call throws a \<^verbatim>\<open>TypeError\<close>.
\<close>

fun split_text :: "jsval \<Rightarrow> string option" where
  "split_text (JStr s) = Some s"
| "split_text (JStringObj s) = Some s"
| "split_text v = None"

section \<open>Host services\<close>

text \<open>
  The module receives \<^verbatim>\<open>thorin\<close> from its host and uses \<^verbatim>\<open>thorin.util\<close>, the
  language's \<^verbatim>\<open>JSON.parse\<close> and string conversion, and the constructor of
  \<^verbatim>\<open>SessionData\<close>. None of them is defined in this repository's store module, so
  they are parameters of the model:
  \<^item> \<open>hmac text secret alg\<close> is \<^verbatim>\<open>thorin.util.hmac(text, secret, alg)\<close>;
  \<^item> \<open>sha2 v\<close> is \<^verbatim>\<open>thorin.util.sha2(v)\<close>;
  \<^item> \<open>encrypt data key\<close> is \<^verbatim>\<open>thorin.util.encrypt(data, key)\<close>, a text or
    \<^verbatim>\<open>false\<close> (\<open>None\<close>);
  \<^item> \<open>decrypt text key\<close> is \<^verbatim>\<open>thorin.util.decrypt(text, key)\<close>, a text or
    \<^verbatim>\<open>false\<close> (\<open>None\<close>);
  \<^item> \<open>compare a b\<close> is \<^verbatim>\<open>thorin.util.compare(a, b)\<close>;
  \<^item> \<open>json_parse text\<close> is \<^verbatim>\<open>JSON.parse(text)\<close>, which throws on a malformed text;
  \<^item> \<open>to_string v\<close> is the conversion a string concatenation applies to \<open>v\<close>;
  \<^item> \<open>new_SessionData id data\<close> is \<^verbatim>\<open>new SessionData(id, data)\<close>.
  The utilities of \<^verbatim>\<open>thorin.util\<close> are taken to return (they do not throw).
\<close>

record util =
  hmac :: "string \<Rightarrow> jsval \<Rightarrow> string \<Rightarrow> string"
  sha2 :: "jsval \<Rightarrow> string"
  encrypt :: "jsval \<Rightarrow> jsval \<Rightarrow> string option"
  decrypt :: "string \<Rightarrow> jsval \<Rightarrow> string option"
  compare :: "string \<Rightarrow> string \<Rightarrow> bool"
  json_parse :: "string \<Rightarrow> exn + jsval"
  to_string :: "jsval \<Rightarrow> string"
  new_SessionData :: "jsval \<Rightarrow> jsval \<Rightarrow> jsval"

text \<open>
  Modelled from the spec: the backends of \<^verbatim>\<open>lib/store/\<close> are not part of the sources
  at hand. A backend is an object with \<^verbatim>\<open>save(key, value, cb)\<close>,
  \<^verbatim>\<open>read(key, cb)\<close> and \<^verbatim>\<open>destroy(key, cb)\<close>, so it is a parameter too: its private
  state \<open>bk_state\<close> and three operations that take the state and return the arguments
  the backend hands to the callback, with the new state. The backend is taken to call
  back once.
\<close>

record 'b backend =
  bk_state :: 'b
  bk_save :: "jsval \<Rightarrow> jsval \<Rightarrow> 'b \<Rightarrow> jsval \<times> 'b"
  bk_read :: "jsval \<Rightarrow> 'b \<Rightarrow> (jsval \<times> jsval) \<times> 'b"
  bk_destroy :: "jsval \<Rightarrow> 'b \<Rightarrow> jsval list \<times> 'b"

text \<open>
  The three backend constructors required at the top of the module; each takes the
  configuration it is given and the plugin options (\<^verbatim>\<open>thorin\<close> is fixed).
\<close>

record 'b stores =
  RedisStore :: "jsval \<Rightarrow> jsval \<Rightarrow> 'b backend"
  SqlStore :: "jsval \<Rightarrow> jsval \<Rightarrow> 'b backend"
  FileStore :: "jsval \<Rightarrow> jsval \<Rightarrow> 'b backend"

section \<open>The session store\<close>

definition SID_SPLIT :: char where
  "SID_SPLIT = CHR ''.''"

definition ENC_SPLIT :: char where
  "ENC_SPLIT = CHR ''#''"

datatype log_entry = LogError string | LogWarn string

datatype backend_call = Save jsval jsval | Read jsval | Destroy jsval

text \<open>
  An instance of \<^verbatim>\<open>ThorinSessionStore\<close>: the fields \<^verbatim>\<open>expire\<close> and
  \<^verbatim>\<open>this[store]\<close> (\<open>None\<close> is \<^verbatim>\<open>null\<close>). Two more fields record the effects of
  the methods on the world outside the instance: the lines handed to the logger, and the
  calls made on the backend, both in order.
\<close>

record 'b sessionStore =
  expire :: jsval
  store :: "'b backend option"
  logged :: "log_entry list"
  calls :: "backend_call list"

text \<open>\<^verbatim>\<open>createStore(storeObj)\<close>\<close>

definition createStore :: "'b stores \<Rightarrow> util \<Rightarrow> jsval \<Rightarrow> jsval \<Rightarrow> exn + 'b backend" where
  "createStore F u opt storeObj =
     (if loose_null storeObj then Inl TypeError
      else if js_prop storeObj ''type'' = JStr ''redis'' then Inr (RedisStore F storeObj opt)
      else if js_prop storeObj ''type'' = JStr ''sql'' then Inr (SqlStore F storeObj opt)
      else if js_prop storeObj ''type'' = JStr ''file''
        then Inr (FileStore F (js_prop storeObj ''path'') opt)
      else Inl (Thrown (JError ''PLUGIN_SESSION''
             (''Invalid session store '' @ to_string u (js_prop storeObj ''type'')
                @ '' for the session plugin.''))))"

text \<open>\<^verbatim>\<open>constructor()\<close>\<close>

definition constructor :: "jsval \<Rightarrow> 'b sessionStore" where
  "constructor opt = \<lparr>expire = js_prop opt ''expire'', store = None, logged = [], calls = []\<rparr>"

text \<open>\<^verbatim>\<open>set store(storeObj)\<close> and \<^verbatim>\<open>get store()\<close>\<close>

definition set_store ::
  "'b stores \<Rightarrow> util \<Rightarrow> jsval \<Rightarrow> jsval \<Rightarrow> 'b sessionStore \<Rightarrow> (exn + unit) \<times> 'b sessionStore" where
  "set_store F u opt storeObj this =
     (case store this of
        Some b \<Rightarrow> (Inr (), this)
      | None \<Rightarrow>
          (case createStore F u opt storeObj of
             Inl e \<Rightarrow> (Inl e, this)
           | Inr b \<Rightarrow> (Inr (), this\<lparr>store := Some b\<rparr>)))"

definition get_store :: "'b sessionStore \<Rightarrow> jsval" where
  "get_store this = JNull"

text \<open>
  \<^verbatim>\<open>signId(sid)\<close>. The test \<^verbatim>\<open>typeof sid !== 'string'\<close> is the case
  distinction on \<open>sid\<close>: the strings are the values \<open>JStr s\<close>.
\<close>

definition signId :: "util \<Rightarrow> jsval \<Rightarrow> jsval \<Rightarrow> jsval" where
  "signId u opt sid =
     (if \<not> truthy (js_prop opt ''secret'') then sid
      else (case sid of
          JStr s \<Rightarrow>
            (let tmp = split_js s SID_SPLIT in
             if length tmp \<noteq> 1 then sid
             else (let sign = hmac u s (js_prop opt ''secret'') ''sha1'' in
                   JStr (s @ [SID_SPLIT] @ sign)))
        | _ \<Rightarrow> JBool False))"

text \<open>
  \<^verbatim>\<open>verifySignature(sid)\<close>. The call \<^verbatim>\<open>sid.split(SID_SPLIT)\<close> is made on whatever
  \<open>sid\<close> is, with no test of its type: it throws a \<^verbatim>\<open>TypeError\<close> on a value with
  no callable \<^verbatim>\<open>split\<close>, and splits the text of a string or of a wrapper object.
\<close>

definition verifySignature :: "util \<Rightarrow> jsval \<Rightarrow> jsval \<Rightarrow> exn + jsval" where
  "verifySignature u opt sid =
     (if \<not> truthy (js_prop opt ''secret'') then Inr sid
      else (case split_text sid of
          None \<Rightarrow> Inl TypeError
        | Some s \<Rightarrow>
            (let tmp = split_js s SID_SPLIT in
             if length tmp \<noteq> 2 then Inr (JBool False)
             else (let sessId = tmp ! 0;
                       sign = tmp ! 1;
                       verifySign = hmac u sessId (js_prop opt ''secret'') ''sha1'' in
                   if compare u verifySign sign then Inr (JStr sessId)
                   else Inr (JBool False)))))"

text \<open>\<^verbatim>\<open>getSecureSid(sid)\<close>\<close>

definition getSecureSid :: "util \<Rightarrow> jsval \<Rightarrow> jsval \<Rightarrow> jsval" where
  "getSecureSid u opt sid =
     (if \<not> truthy (js_prop opt ''encrypt'') then sid else JStr (sha2 u sid))"

text \<open>
  \<^verbatim>\<open>encryptData(sid, data)\<close>. The test \<^verbatim>\<open>!encrypted\<close> holds of \<^verbatim>\<open>false\<close> and of
  the empty text.
\<close>

definition encryptData :: "util \<Rightarrow> jsval \<Rightarrow> jsval \<Rightarrow> jsval \<Rightarrow> jsval" where
  "encryptData u opt sid data =
     (if \<not> truthy (js_prop opt ''encrypt'') then data
      else if typeof_js opt \<noteq> ''object'' then data
      else if loose_null opt then data
      else (case encrypt u data sid of
              None \<Rightarrow> data
            | Some encrypted \<Rightarrow>
                if encrypted = [] then data else JStr (ENC_SPLIT # encrypted)))"

text \<open>
  \<^verbatim>\<open>decryptData(sid, data)\<close>, with the lines it hands to the logger. The record is
  given to \<^verbatim>\<open>thorin.util.decrypt\<close> as it is, marker included. The \<^verbatim>\<open>try\<close> around
  \<^verbatim>\<open>JSON.parse\<close> catches whatever it throws.
\<close>

definition decryptData :: "util \<Rightarrow> jsval \<Rightarrow> jsval \<Rightarrow> (exn + jsval) \<times> log_entry list" where
  "decryptData u sid data =
     (case data of
        JStr s \<Rightarrow>
          (case s of
             [] \<Rightarrow> (Inr data, [])
           | c # cs \<Rightarrow>
               if c \<noteq> ENC_SPLIT then (Inr data, [])
               else (case decrypt u s sid of
                   None \<Rightarrow>
                     (Inr (JObj []),
                      [LogWarn (''Failed to decrypt session data for sid '' @ to_string u sid)])
                 | Some decrypted \<Rightarrow>
                     (case json_parse u decrypted of
                        Inl e \<Rightarrow>
                          (Inr (JStr decrypted),
                           [LogWarn (''Failed to parse decrypted data for sid ''
                                      @ to_string u sid)])
                      | Inr parsed \<Rightarrow> (Inr parsed, []))))
      | _ \<Rightarrow> (Inr data, []))"

text \<open>
  The three operations return the arguments they hand to \<^verbatim>\<open>done\<close> (a missing
  \<^verbatim>\<open>done\<close> is replaced by a function that ignores them) and the instance afterwards.
\<close>

definition NOT_READY :: jsval where
  "NOT_READY = JError ''SESSION.NOT_READY'' ''Session storage is not ready.''"

definition INVALID :: jsval where
  "INVALID = JError ''SESSION.INVALID'' ''Invalid session''"

text \<open>\<^verbatim>\<open>saveSession(sessionObj, done)\<close>\<close>

definition saveSession ::
  "util \<Rightarrow> jsval \<Rightarrow> jsval \<Rightarrow> 'b sessionStore \<Rightarrow> jsval list \<times> 'b sessionStore" where
  "saveSession u opt sessionObj this =
     (case store this of
        None \<Rightarrow>
          ([NOT_READY],
           this\<lparr>logged := logged this
                  @ [LogError ''Session storage is not ready for saveSession.'']\<rparr>)
      | Some b \<Rightarrow>
          (case sessionObj of
             JSession sid data shouldSave \<Rightarrow>
               if typeof_js sid \<noteq> ''string'' then ([JNull, JBool False], this)
               else if typeof_js data = ''undefined'' then ([JNull, JBool False], this)
               else if loose_null data then ([JNull, JBool False], this)
               else if \<not> truthy shouldSave then ([JNull, JBool False], this)
               else (case bk_save b (getSecureSid u opt sid) (encryptData u opt sid data)
                            (bk_state b) of
                       (e, st) \<Rightarrow>
                         (if truthy e then [e] else [JNull, JBool True],
                          this\<lparr>store := Some (b\<lparr>bk_state := st\<rparr>),
                               calls := calls this
                                 @ [Save (getSecureSid u opt sid)
                                      (encryptData u opt sid data)]\<rparr>))
           | _ \<Rightarrow>
               ([INVALID],
                this\<lparr>logged := logged this
                  @ [LogError (''saveSession(sessObj, done), sessObj must be an ''
                       @ ''instance of sessionPlugin.SessionData'')]\<rparr>)))"

text \<open>\<^verbatim>\<open>destroySession(id, done)\<close>\<close>

definition destroySession ::
  "util \<Rightarrow> jsval \<Rightarrow> jsval \<Rightarrow> 'b sessionStore \<Rightarrow> jsval list \<times> 'b sessionStore" where
  "destroySession u opt sid this =
     (case store this of
        None \<Rightarrow>
          ([NOT_READY],
           this\<lparr>logged := logged this
                  @ [LogError ''Session storage is not ready for destroySession.'']\<rparr>)
      | Some b \<Rightarrow>
          (let sid' = (if instanceof_SessionData sid then js_prop sid ''id'' else sid) in
           case bk_destroy b (getSecureSid u opt sid') (bk_state b) of
             (args, st) \<Rightarrow>
               (args,
                this\<lparr>store := Some (b\<lparr>bk_state := st\<rparr>),
                     calls := calls this @ [Destroy (getSecureSid u opt sid')]\<rparr>)))"

text \<open>\<^verbatim>\<open>readSession(id, done, shouldBuildObject)\<close>\<close>

definition readSession ::
  "util \<Rightarrow> jsval \<Rightarrow> jsval \<Rightarrow> jsval \<Rightarrow> 'b sessionStore
     \<Rightarrow> (exn + jsval list) \<times> 'b sessionStore" where
  "readSession u opt sid shouldBuildObject this =
     (case store this of
        None \<Rightarrow>
          (Inr [NOT_READY],
           this\<lparr>logged := logged this
                  @ [LogError ''Session storage is not ready for readSession.'']\<rparr>)
      | Some b \<Rightarrow>
          (let sid' = (if instanceof_SessionData sid then js_prop sid ''id'' else sid) in
           case bk_read b (getSecureSid u opt sid') (bk_state b) of
             ((e, data), st) \<Rightarrow>
               (let this' = this\<lparr>store := Some (b\<lparr>bk_state := st\<rparr>),
                                 calls := calls this @ [Read (getSecureSid u opt sid')]\<rparr> in
                if truthy e then (Inr [e], this')
                else (case decryptData u sid' data of
                        (Inl x, lg) \<Rightarrow> (Inl x, this'\<lparr>logged := logged this' @ lg\<rparr>)
                      | (Inr data', lg) \<Rightarrow>
                          (Inr [JNull,
                                if truthy data' \<and> shouldBuildObject \<noteq> JBool False
                                then new_SessionData u sid' data' else data'],
                           this'\<lparr>logged := logged this' @ lg\<rparr>)))))"

section \<open>An instance of the host services\<close>

text \<open>
  The theorems below hold for every choice of the host services. To run the store on
  concrete inputs this section fixes one choice: a two-way byte cipher that writes its
  output in hexadecimal, as \<^verbatim>\<open>thorin.util.encrypt\<close> does, and refuses any text that
  is not a sequence of hexadecimal digit pairs; digests written in hexadecimal; and a
  backend that keeps its records in a list.
\<close>

definition demo_hexdigit :: "nat \<Rightarrow> char" where
  "demo_hexdigit n = ''0123456789abcdef'' ! n"

definition demo_hex_encode :: "string \<Rightarrow> string" where
  "demo_hex_encode s =
     concat (map (\<lambda>c. [demo_hexdigit (of_char c div 16), demo_hexdigit (of_char c mod 16)]) s)"

definition demo_hexval :: "char \<Rightarrow> nat option" where
  "demo_hexval c =
     (if c \<in> set ''0123456789'' then Some (of_char c - 48)
      else if c \<in> set ''abcdef'' then Some (of_char c - 87)
      else None)"

fun demo_hex_decode :: "string \<Rightarrow> string option" where
  "demo_hex_decode [] = Some []"
| "demo_hex_decode [a] = None"
| "demo_hex_decode (a # b # r) =
     (case demo_hexval a of
        None \<Rightarrow> None
      | Some h \<Rightarrow>
          (case demo_hexval b of
             None \<Rightarrow> None
           | Some l \<Rightarrow>
               (case demo_hex_decode r of
                  None \<Rightarrow> None
                | Some cs \<Rightarrow> Some (char_of (16 * h + l) # cs))))"

text \<open>
  String conversion, exact on the values it is applied to below: strings, wrapper
  objects, \<^verbatim>\<open>undefined\<close>, \<^verbatim>\<open>null\<close> and the booleans.
\<close>

fun demo_to_string :: "jsval \<Rightarrow> string" where
  "demo_to_string (JStr s) = s"
| "demo_to_string (JStringObj s) = s"
| "demo_to_string JUndefined = ''undefined''"
| "demo_to_string JNull = ''null''"
| "demo_to_string (JBool b) = (if b then ''true'' else ''false'')"
| "demo_to_string v = ''[object Object]''"

text \<open>
  The serialisation \<^verbatim>\<open>thorin.util.encrypt\<close> applies to its data and
  \<^verbatim>\<open>JSON.parse\<close>, on the texts used below: the array \<^verbatim>\<open>[1,2]\<close> and the empty
  object are written and read back, a string is written as it is, and every other text
  is refused by the parser (the only other text parsed below is \<^verbatim>\<open>hi\<close>, which is
  not JSON).
\<close>

definition demo_stringify :: "jsval \<Rightarrow> string" where
  "demo_stringify v =
     (if v = JArr [JNum 1, JNum 2] then ''[1,2]''
      else if v = JObj [] then ''{}''
      else demo_to_string v)"

definition demo_json_parse :: "string \<Rightarrow> exn + jsval" where
  "demo_json_parse s =
     (if s = ''[1,2]'' then Inr (JArr [JNum 1, JNum 2])
      else if s = ''{}'' then Inr (JObj [])
      else Inl SyntaxError)"

text \<open>
  The cipher: every byte of the serialised data is moved up by the length of the key and
  the result is written in hexadecimal. Decryption reads hexadecimal digit pairs, which
  fails on any other text, and moves every byte back down.
\<close>

definition demo_encrypt :: "jsval \<Rightarrow> jsval \<Rightarrow> string option" where
  "demo_encrypt data key =
     (case key of
        JStr k \<Rightarrow>
          if k = [] then None
          else Some (demo_hex_encode
                 (map (\<lambda>c. char_of (of_char c + length k)) (demo_stringify data)))
      | _ \<Rightarrow> None)"

definition demo_decrypt :: "string \<Rightarrow> jsval \<Rightarrow> string option" where
  "demo_decrypt text key =
     (case key of
        JStr k \<Rightarrow>
          if k = [] then None
          else if text = [] then None
          else map_option (map (\<lambda>c. char_of (of_char c + 256 - length k mod 256)))
                 (demo_hex_decode text)
      | _ \<Rightarrow> None)"

definition demo_util :: util where
  "demo_util =
     \<lparr>hmac = (\<lambda>text secret alg. demo_hex_encode (demo_to_string secret @ ''/'' @ text)),
      sha2 = (\<lambda>v. demo_hex_encode (rev (demo_to_string v))),
      encrypt = demo_encrypt,
      decrypt = demo_decrypt,
      compare = (\<lambda>a b. a = b),
      json_parse = demo_json_parse,
      to_string = demo_to_string,
      new_SessionData = (\<lambda>i d. JSession i d (JBool False))\<rparr>"

text \<open>
  A second choice of host, which differs in \<^verbatim>\<open>decrypt\<close> only: it drops the first
  character of the text it is given and returns the rest as the decrypted text.
\<close>

definition lenient_util :: util where
  "lenient_util = demo_util\<lparr>decrypt := (\<lambda>text key. Some (tl text))\<rparr>"

text \<open>The backend: records in a list, the newest first.\<close>

definition mem_backend :: "(jsval \<times> jsval) list backend" where
  "mem_backend =
     \<lparr>bk_state = [],
      bk_save = (\<lambda>k v st. (JNull, (k, v) # st)),
      bk_read = (\<lambda>k st. ((JNull, case map_of st k of None \<Rightarrow> JNull | Some v \<Rightarrow> v), st)),
      bk_destroy = (\<lambda>k st. ([JNull], filter (\<lambda>kv. fst kv \<noteq> k) st))\<rparr>"

definition demo_stores :: "(jsval \<times> jsval) list stores" where
  "demo_stores =
     \<lparr>RedisStore = (\<lambda>storeObj opt. mem_backend),
      SqlStore = (\<lambda>storeObj opt. mem_backend),
      FileStore = (\<lambda>path opt. mem_backend)\<rparr>"

text \<open>Options: signing with the secret \<^verbatim>\<open>s\<close>, encryption at rest, and neither.\<close>

definition opt_secret :: jsval where
  "opt_secret = JObj [(''secret'', JStr ''s'')]"

definition opt_encrypt :: jsval where
  "opt_encrypt = JObj [(''encrypt'', JBool True)]"

definition opt_plain :: jsval where
  "opt_plain = JObj []"

text \<open>A store with the list backend attached.\<close>

definition ready_store :: "(jsval \<times> jsval) list sessionStore" where
  "ready_store = \<lparr>expire = JUndefined, store = Some mem_backend, logged = [], calls = []\<rparr>"

section \<open>Basic facts\<close>

lemma split_js_not_Nil: "split_js s c \<noteq> []"
  by (induction s) (auto split: list.splits)

lemma split_js_no_separator: "c \<notin> set s \<Longrightarrow> split_js s c = [s]"
  by (induction s) auto

lemma split_js_append: "c \<notin> set a \<Longrightarrow> split_js (a @ c # b) c = a # split_js b c"
  by (induction a) auto

lemma typeof_js_string: "(typeof_js v = ''string'') = (\<exists>s. v = JStr s)"
  by (cases v) auto

lemma typeof_js_undefined: "(typeof_js v = ''undefined'') = (v = JUndefined)"
  by (cases v) auto

section \<open>Signing and verifying identifiers\<close>

text \<open>
  C4. With no signing secret configured (\<^verbatim>\<open>opt.secret\<close> missing or falsy),
  \<^verbatim>\<open>signId(x)\<close> is \<open>x\<close> and \<^verbatim>\<open>verifySignature(x)\<close> returns \<open>x\<close>, for every value
  \<open>x\<close>, a string or not, with or without delimiters.
\<close>

theorem signing_disabled_passthrough:
  "\<not> truthy (js_prop opt ''secret'') \<Longrightarrow>
     signId u opt x = x \<and> verifySignature u opt x = Inr x"
  by (simp add: signId_def verifySignature_def)

theorem signing_disabled_passthrough_witness:
  "\<not> truthy (js_prop opt_plain ''secret'')
   \<and> signId demo_util opt_plain (JNum 5) = JNum 5
   \<and> verifySignature demo_util opt_plain (JNum 5) = Inr (JNum 5)
   \<and> verifySignature demo_util opt_plain (JStr ''a.b.c'') = Inr (JStr ''a.b.c'')"
proof -
  have h: "\<not> truthy (js_prop opt_plain ''secret'')"
    by (simp add: opt_plain_def)
  show ?thesis
    using h signing_disabled_passthrough [OF h, of demo_util "JNum 5"]
      signing_disabled_passthrough [OF h, of demo_util "JStr ''a.b.c''"]
    by simp
qed

text \<open>
  C9 (as stated it fails). The claim: with a signing secret configured,
  \<^verbatim>\<open>verifySignature\<close> throws on every input that is not a string. The call of
  \<^verbatim>\<open>split\<close> is unguarded, so it succeeds on any value that has the method: for the
  wrapper object \<^verbatim>\<open>new String('abc.732f616263')\<close>, which is an object and for which
  \<^verbatim>\<open>signId\<close> returns \<^verbatim>\<open>false\<close>, \<^verbatim>\<open>verifySignature\<close> does not throw but
  returns the first segment, and for \<^verbatim>\<open>new String('abc')\<close> it returns
  \<^verbatim>\<open>false\<close>.
\<close>

theorem verifySignature_string_object:
  "truthy (js_prop opt_secret ''secret'')
   \<and> typeof_js (JStringObj ''abc.732f616263'') \<noteq> ''string''
   \<and> signId demo_util opt_secret (JStringObj ''abc.732f616263'') = JBool False
   \<and> verifySignature demo_util opt_secret (JStringObj ''abc.732f616263'') = Inr (JStr ''abc'')
   \<and> verifySignature demo_util opt_secret (JStringObj ''abc.732f616263'') \<noteq> Inl TypeError
   \<and> typeof_js (JStringObj ''abc'') \<noteq> ''string''
   \<and> verifySignature demo_util opt_secret (JStringObj ''abc'') = Inr (JBool False)"
proof -
  have a: "truthy (js_prop opt_secret ''secret'')"
    by (simp add: opt_secret_def)
  have d: "hmac demo_util ''abc'' (js_prop opt_secret ''secret'') ''sha1'' = ''732f616263''"
    by code_simp
  have s1: "split_js ''abc.732f616263'' SID_SPLIT = [''abc'', ''732f616263'']"
    and s2: "split_js ''abc'' SID_SPLIT = [''abc'']"
    by (simp_all add: SID_SPLIT_def)
  have b: "signId demo_util opt_secret (JStringObj ''abc.732f616263'') = JBool False"
    using a by (simp add: signId_def)
  have c: "verifySignature demo_util opt_secret (JStringObj ''abc.732f616263'')
      = Inr (JStr ''abc'')"
    using a d s1 by (simp add: verifySignature_def demo_util_def)
  have e: "verifySignature demo_util opt_secret (JStringObj ''abc'') = Inr (JBool False)"
    using a s2 by (simp add: verifySignature_def)
  from a b c e show ?thesis by simp
qed

text \<open>
  C9 (amended). With a signing secret configured, \<^verbatim>\<open>signId\<close> returns \<^verbatim>\<open>false\<close>
  for every input that is not a string, and \<^verbatim>\<open>verifySignature\<close> throws a
  \<^verbatim>\<open>TypeError\<close> for every input that has no callable \<^verbatim>\<open>split\<close> (each such
  input is not a string): \<^verbatim>\<open>undefined\<close>, \<^verbatim>\<open>null\<close>, booleans, numbers, arrays,
  plain data objects, errors and \<^verbatim>\<open>SessionData\<close> instances. On an input that is
  not a string but has the method, a wrapper object, \<^verbatim>\<open>verifySignature\<close> does what
  it does on the string wrapped; on every input with the method it returns a value.
\<close>

theorem verifySignature_unguarded:
  "truthy (js_prop opt ''secret'') \<Longrightarrow>
     (typeof_js x \<noteq> ''string'' \<longrightarrow> signId u opt x = JBool False)
     \<and> (split_text x = None \<longrightarrow>
          typeof_js x \<noteq> ''string'' \<and> verifySignature u opt x = Inl TypeError)
     \<and> (\<forall>s. x = JStringObj s \<longrightarrow>
          typeof_js x \<noteq> ''string''
          \<and> verifySignature u opt x = verifySignature u opt (JStr s))
     \<and> (split_text x \<noteq> None \<longrightarrow> (\<exists>v. verifySignature u opt x = Inr v))"
  by (cases x) (simp_all add: signId_def verifySignature_def Let_def)

theorem verifySignature_unguarded_witness:
  "truthy (js_prop opt_secret ''secret'')
   \<and> typeof_js (JNum 5) \<noteq> ''string''
   \<and> split_text (JNum 5) = None
   \<and> signId demo_util opt_secret (JNum 5) = JBool False
   \<and> verifySignature demo_util opt_secret (JNum 5) = Inl TypeError
   \<and> split_text JUndefined = None
   \<and> verifySignature demo_util opt_secret JUndefined = Inl TypeError
   \<and> split_text (JObj [(''id'', JStr ''a.b'')]) = None
   \<and> verifySignature demo_util opt_secret (JObj [(''id'', JStr ''a.b'')]) = Inl TypeError
   \<and> typeof_js (JStringObj ''a.b'') \<noteq> ''string''
   \<and> signId demo_util opt_secret (JStringObj ''a.b'') = JBool False
   \<and> verifySignature demo_util opt_secret (JStringObj ''a.b'')
       = verifySignature demo_util opt_secret (JStr ''a.b'')
   \<and> split_text (JStr ''a.b'') \<noteq> None
   \<and> (\<exists>v. verifySignature demo_util opt_secret (JStr ''a.b'') = Inr v)"
proof -
  have h: "truthy (js_prop opt_secret ''secret'')"
    by (simp add: opt_secret_def)
  have t: "typeof_js (JNum 5) \<noteq> ''string''" "split_text (JNum 5) = None"
    "split_text JUndefined = None" "split_text (JObj [(''id'', JStr ''a.b'')]) = None"
    "typeof_js (JStringObj ''a.b'') \<noteq> ''string''" "split_text (JStr ''a.b'') \<noteq> None"
    by simp_all
  have r1: "signId demo_util opt_secret (JNum 5) = JBool False"
    and r2: "verifySignature demo_util opt_secret (JNum 5) = Inl TypeError"
    using verifySignature_unguarded [OF h, of "JNum 5" demo_util] t by blast+
  have r3: "verifySignature demo_util opt_secret JUndefined = Inl TypeError"
    using verifySignature_unguarded [OF h, of JUndefined demo_util] t by blast
  have r4: "verifySignature demo_util opt_secret (JObj [(''id'', JStr ''a.b'')]) = Inl TypeError"
    using verifySignature_unguarded [OF h, of "JObj [(''id'', JStr ''a.b'')]" demo_util] t
    by blast
  have r5: "signId demo_util opt_secret (JStringObj ''a.b'') = JBool False"
    and r6: "verifySignature demo_util opt_secret (JStringObj ''a.b'')
      = verifySignature demo_util opt_secret (JStr ''a.b'')"
    using verifySignature_unguarded [OF h, of "JStringObj ''a.b''" demo_util] t by blast+
  have r7: "\<exists>v. verifySignature demo_util opt_secret (JStr ''a.b'') = Inr v"
    using verifySignature_unguarded [OF h, of "JStr ''a.b''" demo_util] t by blast
  from h t r1 r2 r3 r4 r5 r6 r7 show ?thesis by blast
qed

text \<open>
  C3. With a signing secret configured and a raw identifier \<open>x\<close> that contains no
  delimiter, \<^verbatim>\<open>signId(x)\<close> is \<open>x\<close>, the delimiter and the HMAC of \<open>x\<close> under the
  secret, and \<^verbatim>\<open>verifySignature(signId(x))\<close> returns \<open>x\<close>. The two facts used of the
  host are that the digest of \<open>x\<close> contains no delimiter (it is written in hexadecimal)
  and that \<^verbatim>\<open>thorin.util.compare\<close> accepts the digest against itself. That the
  comparison takes constant time is not a matter of the value returned.
\<close>

theorem verify_sign_roundtrip:
  assumes "truthy (js_prop opt ''secret'')"
    and "SID_SPLIT \<notin> set x"
    and "SID_SPLIT \<notin> set (hmac u x (js_prop opt ''secret'') ''sha1'')"
    and "compare u (hmac u x (js_prop opt ''secret'') ''sha1'')
           (hmac u x (js_prop opt ''secret'') ''sha1'')"
  shows "signId u opt (JStr x) = JStr (x @ [SID_SPLIT] @ hmac u x (js_prop opt ''secret'') ''sha1'')
    \<and> verifySignature u opt (signId u opt (JStr x)) = Inr (JStr x)"
proof -
  let ?h = "hmac u x (js_prop opt ''secret'') ''sha1''"
  have signed: "signId u opt (JStr x) = JStr (x @ [SID_SPLIT] @ ?h)"
    using assms(1,2) by (simp add: signId_def split_js_no_separator)
  have "split_js (x @ SID_SPLIT # ?h) SID_SPLIT = [x, ?h]"
    using assms(2,3) by (simp add: split_js_append split_js_no_separator)
  then have "verifySignature u opt (JStr (x @ [SID_SPLIT] @ ?h)) = Inr (JStr x)"
    using assms(1,4) by (simp add: verifySignature_def)
  with signed show ?thesis by simp
qed

theorem verify_sign_roundtrip_witness:
  "truthy (js_prop opt_secret ''secret'')
   \<and> SID_SPLIT \<notin> set ''abc''
   \<and> signId demo_util opt_secret (JStr ''abc'') = JStr ''abc.732f616263''
   \<and> verifySignature demo_util opt_secret (signId demo_util opt_secret (JStr ''abc''))
       = Inr (JStr ''abc'')"
proof -
  have h1: "truthy (js_prop opt_secret ''secret'')"
    by (simp add: opt_secret_def)
  have h2: "SID_SPLIT \<notin> set ''abc''"
    by (simp add: SID_SPLIT_def)
  have d: "hmac demo_util ''abc'' (js_prop opt_secret ''secret'') ''sha1'' = ''732f616263''"
    by code_simp
  have h3: "SID_SPLIT \<notin> set (hmac demo_util ''abc'' (js_prop opt_secret ''secret'') ''sha1'')"
    unfolding d by (simp add: SID_SPLIT_def)
  have h4: "compare demo_util (hmac demo_util ''abc'' (js_prop opt_secret ''secret'') ''sha1'')
      (hmac demo_util ''abc'' (js_prop opt_secret ''secret'') ''sha1'')"
    by (simp add: demo_util_def)
  note r = verify_sign_roundtrip [OF h1 h2 h3 h4]
  have s: "signId demo_util opt_secret (JStr ''abc'') = JStr ''abc.732f616263''"
    using r d by (simp add: SID_SPLIT_def)
  from h1 h2 s r show ?thesis by blast
qed

text \<open>
  C2 (as stated it fails). The claim: with a secret configured, \<^verbatim>\<open>verifySignature\<close>
  returns \<^verbatim>\<open>false\<close> whenever the split does not give exactly two segments that are
  both non-empty. The code tests the number of segments only. For the candidate made of
  the delimiter followed by the digest of the empty string, the first segment is empty,
  and the result is that empty first segment, not \<^verbatim>\<open>false\<close>.
\<close>

theorem verifySignature_empty_first_segment:
  "truthy (js_prop opt_secret ''secret'')
   \<and> split_js ''.732f'' SID_SPLIT = ['''', ''732f'']
   \<and> hmac demo_util '''' (js_prop opt_secret ''secret'') ''sha1'' = ''732f''
   \<and> verifySignature demo_util opt_secret (JStr ''.732f'') = Inr (JStr '''')
   \<and> verifySignature demo_util opt_secret (JStr ''.732f'') \<noteq> Inr (JBool False)"
proof -
  have a: "truthy (js_prop opt_secret ''secret'')"
    by (simp add: opt_secret_def)
  have b: "split_js ''.732f'' SID_SPLIT = ['''', ''732f'']"
    by (simp add: SID_SPLIT_def)
  have c: "hmac demo_util '''' (js_prop opt_secret ''secret'') ''sha1'' = ''732f''"
    by code_simp
  have d: "verifySignature demo_util opt_secret (JStr ''.732f'') = Inr (JStr '''')"
    using a b c by (simp add: verifySignature_def demo_util_def)
  from a b c d show ?thesis by simp
qed

text \<open>
  C2 (amended). With a secret configured, \<^verbatim>\<open>verifySignature\<close> returns \<^verbatim>\<open>false\<close>
  whenever the split does not give exactly two segments. With exactly two segments it
  returns the first segment when \<^verbatim>\<open>thorin.util.compare\<close> accepts the digest of the
  first segment against the second, and \<^verbatim>\<open>false\<close> otherwise; emptiness of a segment
  is not tested. A candidate that ends with the delimiter (an empty second segment) is
  therefore rejected as long as the digest is never empty and the comparison accepts
  equal strings only.
\<close>

theorem verifySignature_segments:
  assumes "truthy (js_prop opt ''secret'')"
  shows "(length (split_js s SID_SPLIT) \<noteq> 2 \<longrightarrow>
            verifySignature u opt (JStr s) = Inr (JBool False))
    \<and> (\<forall>a b. split_js s SID_SPLIT = [a, b] \<longrightarrow>
          verifySignature u opt (JStr s) =
            (if compare u (hmac u a (js_prop opt ''secret'') ''sha1'') b
             then Inr (JStr a) else Inr (JBool False)))
    \<and> (\<forall>a. s = a @ [SID_SPLIT] \<and> SID_SPLIT \<notin> set a
            \<and> hmac u a (js_prop opt ''secret'') ''sha1'' \<noteq> []
            \<and> (\<forall>p q. compare u p q \<longrightarrow> p = q) \<longrightarrow>
          verifySignature u opt (JStr s) = Inr (JBool False))"
proof (intro conjI allI impI)
  assume "length (split_js s SID_SPLIT) \<noteq> 2"
  with assms show "verifySignature u opt (JStr s) = Inr (JBool False)"
    by (simp add: verifySignature_def)
next
  fix a b
  assume "split_js s SID_SPLIT = [a, b]"
  with assms show "verifySignature u opt (JStr s) =
      (if compare u (hmac u a (js_prop opt ''secret'') ''sha1'') b
       then Inr (JStr a) else Inr (JBool False))"
    by (simp add: verifySignature_def)
next
  fix a
  assume h: "s = a @ [SID_SPLIT] \<and> SID_SPLIT \<notin> set a
      \<and> hmac u a (js_prop opt ''secret'') ''sha1'' \<noteq> []
      \<and> (\<forall>p q. compare u p q \<longrightarrow> p = q)"
  then have "split_js s SID_SPLIT = [a, []]"
    by (simp add: split_js_append)
  moreover from h have "\<not> compare u (hmac u a (js_prop opt ''secret'') ''sha1'') []"
    by blast
  ultimately show "verifySignature u opt (JStr s) = Inr (JBool False)"
    using assms by (simp add: verifySignature_def)
qed

theorem verifySignature_segments_witness:
  "truthy (js_prop opt_secret ''secret'')
   \<and> length (split_js ''a.b.c'' SID_SPLIT) \<noteq> 2
   \<and> verifySignature demo_util opt_secret (JStr ''a.b.c'') = Inr (JBool False)
   \<and> length (split_js ''abc'' SID_SPLIT) \<noteq> 2
   \<and> verifySignature demo_util opt_secret (JStr ''abc'') = Inr (JBool False)
   \<and> split_js ''abc.732f616263'' SID_SPLIT = [''abc'', ''732f616263'']
   \<and> verifySignature demo_util opt_secret (JStr ''abc.732f616263'') = Inr (JStr ''abc'')
   \<and> split_js ''abc.bad'' SID_SPLIT = [''abc'', ''bad'']
   \<and> verifySignature demo_util opt_secret (JStr ''abc.bad'') = Inr (JBool False)
   \<and> SID_SPLIT \<notin> set ''abc''
   \<and> hmac demo_util ''abc'' (js_prop opt_secret ''secret'') ''sha1'' \<noteq> []
   \<and> (\<forall>p q. compare demo_util p q = (p = q))
   \<and> verifySignature demo_util opt_secret (JStr (''abc'' @ [SID_SPLIT])) = Inr (JBool False)"
proof -
  have h: "truthy (js_prop opt_secret ''secret'')"
    by (simp add: opt_secret_def)
  have d: "hmac demo_util ''abc'' (js_prop opt_secret ''secret'') ''sha1'' = ''732f616263''"
    by code_simp
  have cmp: "\<forall>p q. compare demo_util p q = (p = q)"
    by (simp add: demo_util_def)
  have s1: "length (split_js ''a.b.c'' SID_SPLIT) \<noteq> 2"
    by (simp add: SID_SPLIT_def)
  have s2: "length (split_js ''abc'' SID_SPLIT) \<noteq> 2"
    by (simp add: SID_SPLIT_def)
  have s3: "split_js ''abc.732f616263'' SID_SPLIT = [''abc'', ''732f616263'']"
    by (simp add: SID_SPLIT_def)
  have s4: "split_js ''abc.bad'' SID_SPLIT = [''abc'', ''bad'']"
    by (simp add: SID_SPLIT_def)
  have s5: "SID_SPLIT \<notin> set ''abc''"
    by (simp add: SID_SPLIT_def)
  have r1: "verifySignature demo_util opt_secret (JStr ''a.b.c'') = Inr (JBool False)"
    using verifySignature_segments [OF h, of "''a.b.c''" demo_util] s1 by blast
  have r2: "verifySignature demo_util opt_secret (JStr ''abc'') = Inr (JBool False)"
    using verifySignature_segments [OF h, of "''abc''" demo_util] s2 by blast
  have r3: "verifySignature demo_util opt_secret (JStr ''abc.732f616263'') = Inr (JStr ''abc'')"
    using verifySignature_segments [OF h, of "''abc.732f616263''" demo_util] s3 d cmp by simp
  have r4: "verifySignature demo_util opt_secret (JStr ''abc.bad'') = Inr (JBool False)"
    using verifySignature_segments [OF h, of "''abc.bad''" demo_util] s4 d cmp by simp
  have r5: "verifySignature demo_util opt_secret (JStr (''abc'' @ [SID_SPLIT])) = Inr (JBool False)"
    using verifySignature_segments [OF h, of "''abc'' @ [SID_SPLIT]" demo_util] s5 d cmp by simp
  from h d cmp s1 s2 s3 s4 s5 r1 r2 r3 r4 r5 show ?thesis by simp
qed

section \<open>Encrypting and decrypting the payload\<close>

lemma truthy_prop_object: "truthy (js_prop opt ''encrypt'') \<Longrightarrow> \<exists>kvs. opt = JObj kvs"
  by (cases opt) auto

text \<open>
  C5. \<^verbatim>\<open>decryptData\<close> returns on every identifier and every record. A record that
  is not a string, an empty string and a string that does not begin with the marker
  are returned unchanged. For a string that begins with the marker: when
  \<^verbatim>\<open>thorin.util.decrypt\<close> fails the result is the empty object; when it succeeds and
  \<^verbatim>\<open>JSON.parse\<close> throws on the decrypted text the result is that text as a string;
  when both succeed the result is the parsed value. (The conversion of the identifier
  into the text of the warning is the host's \<open>to_string\<close>, taken to return.)
\<close>

theorem decryptData_fail_safe:
  "(\<exists>v. fst (decryptData u sid data) = Inr v)
   \<and> (typeof_js data \<noteq> ''string'' \<longrightarrow> fst (decryptData u sid data) = Inr data)
   \<and> (\<forall>s. data = JStr s \<and> (s = [] \<or> hd s \<noteq> ENC_SPLIT) \<longrightarrow>
         fst (decryptData u sid data) = Inr data)
   \<and> (\<forall>c. data = JStr (ENC_SPLIT # c) \<and> decrypt u (ENC_SPLIT # c) sid = None \<longrightarrow>
         fst (decryptData u sid data) = Inr (JObj []))
   \<and> (\<forall>c d e. data = JStr (ENC_SPLIT # c) \<and> decrypt u (ENC_SPLIT # c) sid = Some d
           \<and> json_parse u d = Inl e \<longrightarrow>
         fst (decryptData u sid data) = Inr (JStr d))
   \<and> (\<forall>c d v. data = JStr (ENC_SPLIT # c) \<and> decrypt u (ENC_SPLIT # c) sid = Some d
           \<and> json_parse u d = Inr v \<longrightarrow>
         fst (decryptData u sid data) = Inr v)"
proof (intro conjI allI impI)
  show "\<exists>v. fst (decryptData u sid data) = Inr v"
    by (simp add: decryptData_def split: jsval.splits list.splits option.splits sum.splits)
next
  assume "typeof_js data \<noteq> ''string''"
  then show "fst (decryptData u sid data) = Inr data"
    by (cases data) (simp_all add: decryptData_def)
next
  fix s
  assume "data = JStr s \<and> (s = [] \<or> hd s \<noteq> ENC_SPLIT)"
  then show "fst (decryptData u sid data) = Inr data"
    by (cases s) (auto simp: decryptData_def)
next
  fix c
  assume "data = JStr (ENC_SPLIT # c) \<and> decrypt u (ENC_SPLIT # c) sid = None"
  then show "fst (decryptData u sid data) = Inr (JObj [])"
    by (simp add: decryptData_def)
next
  fix c d e
  assume "data = JStr (ENC_SPLIT # c) \<and> decrypt u (ENC_SPLIT # c) sid = Some d
    \<and> json_parse u d = Inl e"
  then show "fst (decryptData u sid data) = Inr (JStr d)"
    by (simp add: decryptData_def)
next
  fix c d v
  assume "data = JStr (ENC_SPLIT # c) \<and> decrypt u (ENC_SPLIT # c) sid = Some d
    \<and> json_parse u d = Inr v"
  then show "fst (decryptData u sid data) = Inr v"
    by (simp add: decryptData_def)
qed

theorem decryptData_fail_safe_witness:
  "typeof_js (JNum 7) \<noteq> ''string''
   \<and> fst (decryptData demo_util (JStr ''k'') (JNum 7)) = Inr (JNum 7)
   \<and> hd ''[1,2]'' \<noteq> ENC_SPLIT
   \<and> fst (decryptData demo_util (JStr ''k'') (JStr ''[1,2]'')) = Inr (JStr ''[1,2]'')
   \<and> fst (decryptData demo_util (JStr ''k'') (JStr '''')) = Inr (JStr '''')
   \<and> decrypt demo_util (ENC_SPLIT # ''zz'') (JStr ''k'') = None
   \<and> fst (decryptData demo_util (JStr ''k'') (JStr (ENC_SPLIT # ''zz''))) = Inr (JObj [])
   \<and> decrypt lenient_util (ENC_SPLIT # ''hi'') (JStr ''k'') = Some ''hi''
   \<and> json_parse lenient_util ''hi'' = Inl SyntaxError
   \<and> fst (decryptData lenient_util (JStr ''k'') (JStr (ENC_SPLIT # ''hi''))) = Inr (JStr ''hi'')
   \<and> decrypt lenient_util (ENC_SPLIT # ''[1,2]'') (JStr ''k'') = Some ''[1,2]''
   \<and> json_parse lenient_util ''[1,2]'' = Inr (JArr [JNum 1, JNum 2])
   \<and> fst (decryptData lenient_util (JStr ''k'') (JStr (ENC_SPLIT # ''[1,2]'')))
       = Inr (JArr [JNum 1, JNum 2])"
proof -
  have a1: "typeof_js (JNum 7) \<noteq> ''string''"
    by simp
  have a2: "hd ''[1,2]'' \<noteq> ENC_SPLIT"
    by (simp add: ENC_SPLIT_def)
  have a3: "decrypt demo_util (ENC_SPLIT # ''zz'') (JStr ''k'') = None"
    by code_simp
  have a4: "decrypt lenient_util (ENC_SPLIT # ''hi'') (JStr ''k'') = Some ''hi''"
    by (simp add: lenient_util_def)
  have a5: "json_parse lenient_util ''hi'' = Inl SyntaxError"
    by (simp add: lenient_util_def demo_util_def demo_json_parse_def)
  have a6: "decrypt lenient_util (ENC_SPLIT # ''[1,2]'') (JStr ''k'') = Some ''[1,2]''"
    by (simp add: lenient_util_def)
  have a7: "json_parse lenient_util ''[1,2]'' = Inr (JArr [JNum 1, JNum 2])"
    by (simp add: lenient_util_def demo_util_def demo_json_parse_def)
  have r1: "fst (decryptData demo_util (JStr ''k'') (JNum 7)) = Inr (JNum 7)"
    using decryptData_fail_safe [of demo_util "JStr ''k''" "JNum 7"] a1 by blast
  have r2: "fst (decryptData demo_util (JStr ''k'') (JStr ''[1,2]'')) = Inr (JStr ''[1,2]'')"
    using decryptData_fail_safe [of demo_util "JStr ''k''" "JStr ''[1,2]''"] a2 by blast
  have r3: "fst (decryptData demo_util (JStr ''k'') (JStr '''')) = Inr (JStr '''')"
    using decryptData_fail_safe [of demo_util "JStr ''k''" "JStr ''''"] by blast
  have r4: "fst (decryptData demo_util (JStr ''k'') (JStr (ENC_SPLIT # ''zz''))) = Inr (JObj [])"
    using decryptData_fail_safe [of demo_util "JStr ''k''" "JStr (ENC_SPLIT # ''zz'')"] a3
    by blast
  have r5: "fst (decryptData lenient_util (JStr ''k'') (JStr (ENC_SPLIT # ''hi'')))
      = Inr (JStr ''hi'')"
    using decryptData_fail_safe [of lenient_util "JStr ''k''" "JStr (ENC_SPLIT # ''hi'')"] a4 a5
    by blast
  have r6: "fst (decryptData lenient_util (JStr ''k'') (JStr (ENC_SPLIT # ''[1,2]'')))
      = Inr (JArr [JNum 1, JNum 2])"
    using decryptData_fail_safe [of lenient_util "JStr ''k''" "JStr (ENC_SPLIT # ''[1,2]'')"]
      a6 a7
    by blast
  from a1 a2 a3 a4 a5 a6 a7 r1 r2 r3 r4 r5 r6 show ?thesis by blast
qed

text \<open>
  C1 (the code loses the data). The claim is the round trip
  \<^verbatim>\<open>decryptData(id, encryptData(id, data)) = data\<close> with encryption enabled.
  \<^verbatim>\<open>encryptData\<close> stores the marker followed by the ciphertext \<open>c\<close>;
  \<^verbatim>\<open>decryptData\<close> hands \<^verbatim>\<open>thorin.util.decrypt\<close> the whole record, marker
  included, not \<open>c\<close>. Whenever the host's \<open>decrypt\<close> refuses that marked text, the
  result is the empty object, whatever the data was. The witness runs the cipher of the
  previous section on the array \<^verbatim>\<open>[1,2]\<close>: the cipher decrypts \<open>c\<close> back to the
  serialised array, refuses the marked record, and the store returns \<^verbatim>\<open>{}\<close>.
\<close>

theorem encryptData_decryptData_marker:
  assumes "truthy (js_prop opt ''encrypt'')"
    and "encrypt u data sid = Some c"
    and "c \<noteq> []"
    and "decrypt u (ENC_SPLIT # c) sid = None"
  shows "encryptData u opt sid data = JStr (ENC_SPLIT # c)
    \<and> fst (decryptData u sid (encryptData u opt sid data)) = Inr (JObj [])"
proof -
  from assms(1) obtain kvs where "opt = JObj kvs"
    using truthy_prop_object by blast
  with assms(1,2,3) have e: "encryptData u opt sid data = JStr (ENC_SPLIT # c)"
    by (simp add: encryptData_def)
  from assms(4) have "fst (decryptData u sid (JStr (ENC_SPLIT # c))) = Inr (JObj [])"
    by (simp add: decryptData_def)
  with e show ?thesis by simp
qed

theorem encryptData_decryptData_marker_witness:
  "truthy (js_prop opt_encrypt ''encrypt'')
   \<and> encrypt demo_util (JArr [JNum 1, JNum 2]) (JStr ''k'') = Some ''5c322d335e''
   \<and> decrypt demo_util ''5c322d335e'' (JStr ''k'') = Some ''[1,2]''
   \<and> json_parse demo_util ''[1,2]'' = Inr (JArr [JNum 1, JNum 2])
   \<and> decrypt demo_util (ENC_SPLIT # ''5c322d335e'') (JStr ''k'') = None
   \<and> encryptData demo_util opt_encrypt (JStr ''k'') (JArr [JNum 1, JNum 2])
       = JStr (ENC_SPLIT # ''5c322d335e'')
   \<and> fst (decryptData demo_util (JStr ''k'')
        (encryptData demo_util opt_encrypt (JStr ''k'') (JArr [JNum 1, JNum 2])))
       = Inr (JObj [])
   \<and> JObj [] \<noteq> JArr [JNum 1, JNum 2]"
proof -
  have h1: "truthy (js_prop opt_encrypt ''encrypt'')"
    by (simp add: opt_encrypt_def)
  have h2: "encrypt demo_util (JArr [JNum 1, JNum 2]) (JStr ''k'') = Some ''5c322d335e''"
    by code_simp
  have h3: "''5c322d335e'' \<noteq> []"
    by simp
  have h4: "decrypt demo_util (ENC_SPLIT # ''5c322d335e'') (JStr ''k'') = None"
    by code_simp
  have c1: "decrypt demo_util ''5c322d335e'' (JStr ''k'') = Some ''[1,2]''"
    by code_simp
  have c2: "json_parse demo_util ''[1,2]'' = Inr (JArr [JNum 1, JNum 2])"
    by (simp add: demo_util_def demo_json_parse_def)
  have ne: "JObj [] \<noteq> JArr [JNum 1, JNum 2]"
    by simp
  note r = encryptData_decryptData_marker [OF h1 h2 h3 h4]
  from h1 h2 h4 c1 c2 ne r show ?thesis by blast
qed

section \<open>Validation before the backend\<close>

text \<open>
  C7. The checks of the three operations, in the order the code makes them. With no
  backend attached, \<^verbatim>\<open>saveSession\<close>, \<^verbatim>\<open>readSession\<close> and \<^verbatim>\<open>destroySession\<close>
  complete with the \<^verbatim>\<open>SESSION.NOT_READY\<close> error, no backend is attached afterwards
  and no backend call is made. With a backend attached, \<^verbatim>\<open>saveSession\<close> of a value
  that is not a \<^verbatim>\<open>SessionData\<close> completes with the \<^verbatim>\<open>SESSION.INVALID\<close> error, and
  \<^verbatim>\<open>saveSession\<close> of a \<^verbatim>\<open>SessionData\<close> whose id is not a string, whose data is
  \<^verbatim>\<open>undefined\<close> or \<^verbatim>\<open>null\<close>, or whose \<^verbatim>\<open>shouldSave()\<close> is falsy completes
  with \<^verbatim>\<open>(null, false)\<close>; in both cases the backend, its state and the list of backend
  calls are as before.
\<close>

theorem local_validation_failures:
  "(store this = None \<longrightarrow>
        fst (saveSession u opt obj this) = [NOT_READY]
      \<and> store (snd (saveSession u opt obj this)) = None
      \<and> calls (snd (saveSession u opt obj this)) = calls this
      \<and> fst (readSession u opt sid sbo this) = Inr [NOT_READY]
      \<and> store (snd (readSession u opt sid sbo this)) = None
      \<and> calls (snd (readSession u opt sid sbo this)) = calls this
      \<and> fst (destroySession u opt sid this) = [NOT_READY]
      \<and> store (snd (destroySession u opt sid this)) = None
      \<and> calls (snd (destroySession u opt sid this)) = calls this)
   \<and> (store this \<noteq> None \<and> \<not> instanceof_SessionData obj \<longrightarrow>
        fst (saveSession u opt obj this) = [INVALID]
      \<and> store (snd (saveSession u opt obj this)) = store this
      \<and> calls (snd (saveSession u opt obj this)) = calls this)
   \<and> (store this \<noteq> None
        \<and> (typeof_js i \<noteq> ''string'' \<or> typeof_js d = ''undefined'' \<or> loose_null d
              \<or> \<not> truthy s) \<longrightarrow>
        saveSession u opt (JSession i d s) this = ([JNull, JBool False], this))"
proof (intro conjI impI)
  assume "store this \<noteq> None \<and> \<not> instanceof_SessionData obj"
  then show "fst (saveSession u opt obj this) = [INVALID]"
    and "store (snd (saveSession u opt obj this)) = store this"
    and "calls (snd (saveSession u opt obj this)) = calls this"
    by (cases obj; auto simp: saveSession_def)+
next
  assume "store this \<noteq> None
    \<and> (typeof_js i \<noteq> ''string'' \<or> typeof_js d = ''undefined'' \<or> loose_null d \<or> \<not> truthy s)"
  then show "saveSession u opt (JSession i d s) this = ([JNull, JBool False], this)"
    by (auto simp: saveSession_def)
qed (simp_all add: saveSession_def readSession_def destroySession_def)

theorem local_validation_failures_witness:
  "store (constructor opt_plain :: (jsval \<times> jsval) list sessionStore) = None
   \<and> fst (saveSession demo_util opt_plain (JSession (JStr ''k'') (JArr []) (JBool True))
          (constructor opt_plain :: (jsval \<times> jsval) list sessionStore)) = [NOT_READY]
   \<and> fst (readSession demo_util opt_plain (JStr ''k'') JUndefined
          (constructor opt_plain :: (jsval \<times> jsval) list sessionStore)) = Inr [NOT_READY]
   \<and> fst (destroySession demo_util opt_plain (JStr ''k'')
          (constructor opt_plain :: (jsval \<times> jsval) list sessionStore)) = [NOT_READY]
   \<and> store ready_store \<noteq> None
   \<and> \<not> instanceof_SessionData (JObj [(''id'', JStr ''k'')])
   \<and> fst (saveSession demo_util opt_plain (JObj [(''id'', JStr ''k'')]) ready_store) = [INVALID]
   \<and> calls (snd (saveSession demo_util opt_plain (JObj [(''id'', JStr ''k'')]) ready_store))
       = calls ready_store
   \<and> typeof_js (JNum 1) \<noteq> ''string''
   \<and> saveSession demo_util opt_plain (JSession (JNum 1) (JArr []) (JBool True)) ready_store
       = ([JNull, JBool False], ready_store)
   \<and> loose_null JNull
   \<and> saveSession demo_util opt_plain (JSession (JStr ''k'') JNull (JBool True)) ready_store
       = ([JNull, JBool False], ready_store)
   \<and> \<not> truthy (JBool False)
   \<and> saveSession demo_util opt_plain (JSession (JStr ''k'') (JArr []) (JBool False)) ready_store
       = ([JNull, JBool False], ready_store)"
proof -
  let ?new = "constructor opt_plain :: (jsval \<times> jsval) list sessionStore"
  have n: "store ?new = None"
    by (simp add: constructor_def)
  have r: "store ready_store \<noteq> None"
    by (simp add: ready_store_def)
  have i: "\<not> instanceof_SessionData (JObj [(''id'', JStr ''k'')])"
    by simp
  have t1: "typeof_js (JNum 1) \<noteq> ''string''" and t2: "loose_null JNull"
    and t3: "\<not> truthy (JBool False)"
    by simp_all
  have a: "fst (saveSession demo_util opt_plain (JSession (JStr ''k'') (JArr []) (JBool True))
      ?new) = [NOT_READY]"
    using local_validation_failures
      [of ?new demo_util opt_plain "JSession (JStr ''k'') (JArr []) (JBool True)"] n
    by blast
  have b: "fst (readSession demo_util opt_plain (JStr ''k'') JUndefined ?new) = Inr [NOT_READY]"
    and c: "fst (destroySession demo_util opt_plain (JStr ''k'') ?new) = [NOT_READY]"
    using local_validation_failures [of ?new demo_util opt_plain _ "JStr ''k''" JUndefined] n
    by blast+
  have d: "fst (saveSession demo_util opt_plain (JObj [(''id'', JStr ''k'')]) ready_store)
      = [INVALID]"
    and e: "calls (snd (saveSession demo_util opt_plain (JObj [(''id'', JStr ''k'')])
      ready_store)) = calls ready_store"
    using local_validation_failures
      [of ready_store demo_util opt_plain "JObj [(''id'', JStr ''k'')]"] r i
    by blast+
  have f: "saveSession demo_util opt_plain (JSession (JNum 1) (JArr []) (JBool True))
      ready_store = ([JNull, JBool False], ready_store)"
    using local_validation_failures
      [of ready_store demo_util opt_plain _ _ _ "JNum 1" "JArr []" "JBool True"] r t1
    by blast
  have g: "saveSession demo_util opt_plain (JSession (JStr ''k'') JNull (JBool True))
      ready_store = ([JNull, JBool False], ready_store)"
    using local_validation_failures
      [of ready_store demo_util opt_plain _ _ _ "JStr ''k''" JNull "JBool True"] r t2
    by blast
  have h: "saveSession demo_util opt_plain (JSession (JStr ''k'') (JArr []) (JBool False))
      ready_store = ([JNull, JBool False], ready_store)"
    using local_validation_failures
      [of ready_store demo_util opt_plain _ _ _ "JStr ''k''" "JArr []" "JBool False"] r t3
    by blast
  from n r i t1 t2 t3 a b c d e f g h show ?thesis by blast
qed

section \<open>Attaching the backend\<close>

text \<open>
  C8 (as stated it fails). The claim: the first assignment to \<^verbatim>\<open>store\<close> attaches a
  backend and every later assignment is ignored. A first assignment whose configuration
  names no supported type throws out of \<^verbatim>\<open>createStore\<close> and attaches nothing, and the
  assignment after it is not ignored: it attaches its backend.
\<close>

theorem store_assignment_after_failure:
  "fst (set_store demo_stores demo_util opt_plain (JObj [(''type'', JStr ''mongo'')])
          (constructor opt_plain))
     = Inl (Thrown (JError ''PLUGIN_SESSION''
              ''Invalid session store mongo for the session plugin.''))
   \<and> store (snd (set_store demo_stores demo_util opt_plain (JObj [(''type'', JStr ''mongo'')])
          (constructor opt_plain))) = None
   \<and> store (snd (set_store demo_stores demo_util opt_plain (JObj [(''type'', JStr ''file'')])
          (snd (set_store demo_stores demo_util opt_plain (JObj [(''type'', JStr ''mongo'')])
             (constructor opt_plain))))) = Some mem_backend"
  by (simp add: set_store_def createStore_def constructor_def demo_stores_def demo_util_def)

text \<open>
  C8 (amended). Once a backend is attached, every assignment to \<^verbatim>\<open>store\<close> returns
  silently and leaves the instance, its backend included, as it was. While no backend
  is attached, an assignment attaches the backend \<^verbatim>\<open>createStore\<close> builds from the
  configuration (one of the three constructors, by \<^verbatim>\<open>type\<close>), and an assignment
  whose configuration is \<^verbatim>\<open>null\<close>, \<^verbatim>\<open>undefined\<close> or of an unsupported type throws
  and attaches nothing. Reading \<^verbatim>\<open>store\<close> gives \<^verbatim>\<open>null\<close> always.
\<close>

theorem store_set_once:
  "(\<forall>b. store this = Some b \<longrightarrow> set_store F u opt storeObj this = (Inr (), this))
   \<and> (\<forall>b. store this = None \<and> createStore F u opt storeObj = Inr b \<longrightarrow>
         set_store F u opt storeObj this = (Inr (), this\<lparr>store := Some b\<rparr>))
   \<and> (\<forall>e. store this = None \<and> createStore F u opt storeObj = Inl e \<longrightarrow>
         set_store F u opt storeObj this = (Inl e, this))
   \<and> (\<not> loose_null storeObj \<and> js_prop storeObj ''type'' = JStr ''redis'' \<longrightarrow>
         createStore F u opt storeObj = Inr (RedisStore F storeObj opt))
   \<and> (\<not> loose_null storeObj \<and> js_prop storeObj ''type'' = JStr ''sql'' \<longrightarrow>
         createStore F u opt storeObj = Inr (SqlStore F storeObj opt))
   \<and> (\<not> loose_null storeObj \<and> js_prop storeObj ''type'' = JStr ''file'' \<longrightarrow>
         createStore F u opt storeObj = Inr (FileStore F (js_prop storeObj ''path'') opt))
   \<and> (loose_null storeObj \<or> js_prop storeObj ''type''
           \<notin> {JStr ''redis'', JStr ''sql'', JStr ''file''} \<longrightarrow>
         (\<exists>e. createStore F u opt storeObj = Inl e))
   \<and> get_store this = JNull"
  by (auto simp: set_store_def createStore_def get_store_def)

theorem store_set_once_witness:
  "store (constructor opt_plain :: (jsval \<times> jsval) list sessionStore) = None
   \<and> \<not> loose_null (JObj [(''type'', JStr ''redis'')])
   \<and> js_prop (JObj [(''type'', JStr ''redis'')]) ''type'' = JStr ''redis''
   \<and> set_store demo_stores demo_util opt_plain (JObj [(''type'', JStr ''redis'')])
        (constructor opt_plain)
       = (Inr (), (constructor opt_plain)\<lparr>store := Some mem_backend\<rparr>)
   \<and> store ready_store = Some mem_backend
   \<and> set_store demo_stores demo_util opt_plain (JObj [(''type'', JStr ''sql'')]) ready_store
       = (Inr (), ready_store)
   \<and> set_store demo_stores demo_util opt_plain (JObj [(''type'', JStr ''mongo'')]) ready_store
       = (Inr (), ready_store)
   \<and> set_store demo_stores demo_util opt_plain JNull ready_store = (Inr (), ready_store)
   \<and> js_prop (JObj [(''type'', JStr ''mongo'')]) ''type''
       \<notin> {JStr ''redis'', JStr ''sql'', JStr ''file''}
   \<and> (\<exists>e. set_store demo_stores demo_util opt_plain (JObj [(''type'', JStr ''mongo'')])
          (constructor opt_plain) = (Inl e, constructor opt_plain))
   \<and> get_store ready_store = JNull
   \<and> get_store (constructor opt_plain :: (jsval \<times> jsval) list sessionStore) = JNull"
proof -
  let ?new = "constructor opt_plain :: (jsval \<times> jsval) list sessionStore"
  let ?redis = "JObj [(''type'', JStr ''redis'')]"
  let ?mongo = "JObj [(''type'', JStr ''mongo'')]"
  have n: "store ?new = None"
    by (simp add: constructor_def)
  have r: "store ready_store = Some mem_backend"
    by (simp add: ready_store_def)
  have p1: "\<not> loose_null ?redis" and p2: "js_prop ?redis ''type'' = JStr ''redis''"
    and p3: "js_prop ?mongo ''type'' \<notin> {JStr ''redis'', JStr ''sql'', JStr ''file''}"
    by simp_all
  have mk: "RedisStore demo_stores ?redis opt_plain = mem_backend"
    by (simp add: demo_stores_def)
  have c1: "createStore demo_stores demo_util opt_plain ?redis = Inr mem_backend"
    using store_set_once [of ?new demo_stores demo_util opt_plain ?redis] p1 p2 mk by simp
  have a: "set_store demo_stores demo_util opt_plain ?redis ?new
      = (Inr (), ?new\<lparr>store := Some mem_backend\<rparr>)"
    using store_set_once [of ?new demo_stores demo_util opt_plain ?redis] n c1 by blast
  have b1: "set_store demo_stores demo_util opt_plain (JObj [(''type'', JStr ''sql'')])
      ready_store = (Inr (), ready_store)"
    using store_set_once [of ready_store demo_stores demo_util opt_plain] r by blast
  have b2: "set_store demo_stores demo_util opt_plain ?mongo ready_store = (Inr (), ready_store)"
    using store_set_once [of ready_store demo_stores demo_util opt_plain] r by blast
  have b3: "set_store demo_stores demo_util opt_plain JNull ready_store = (Inr (), ready_store)"
    using store_set_once [of ready_store demo_stores demo_util opt_plain] r by blast
  have c2: "\<exists>e. createStore demo_stores demo_util opt_plain ?mongo = Inl e"
    using store_set_once [of ?new demo_stores demo_util opt_plain ?mongo] p3 by blast
  have d: "\<exists>e. set_store demo_stores demo_util opt_plain ?mongo ?new = (Inl e, ?new)"
    using store_set_once [of ?new demo_stores demo_util opt_plain ?mongo] n c2 by blast
  have g1: "get_store ready_store = JNull" and g2: "get_store ?new = JNull"
    using store_set_once [of ready_store] store_set_once [of ?new] by blast+
  from n r p1 p2 p3 a b1 b2 b3 d g1 g2 show ?thesis by blast
qed

section \<open>The storage key\<close>

text \<open>
  C6. \<^verbatim>\<open>getSecureSid\<close> is a function of the options and the raw identifier (a
  string): it is the raw identifier itself when encryption at rest is disabled, and the
  host's \<^verbatim>\<open>sha2\<close> of the raw identifier when it is enabled. The three operations
  use it alike. With a backend attached, \<^verbatim>\<open>saveSession\<close> completes with what the
  backend's \<^verbatim>\<open>save\<close> answers under the key \<^verbatim>\<open>getSecureSid(id)\<close>,
  \<^verbatim>\<open>destroySession\<close> with what \<^verbatim>\<open>destroy\<close> answers under that key, and
  \<^verbatim>\<open>readSession\<close> with the record \<^verbatim>\<open>read\<close> answers under that key, passed
  through \<^verbatim>\<open>decryptData\<close>; the backend is left in the state the call with that key
  leaves it in, and no other backend call is made. Given a \<^verbatim>\<open>SessionData\<close>,
  \<^verbatim>\<open>destroySession\<close> and \<^verbatim>\<open>readSession\<close> do what they do given its \<^verbatim>\<open>id\<close>.
  So equal raw identifiers reach the same record in all three. (That \<^verbatim>\<open>sha2\<close> is
  one-way is a property of the host's hash.)
\<close>

theorem storage_key_uniform:
  "(\<not> truthy (js_prop opt ''encrypt'') \<longrightarrow> getSecureSid u opt (JStr x) = JStr x)
   \<and> (truthy (js_prop opt ''encrypt'') \<longrightarrow>
        getSecureSid u opt (JStr x) = JStr (sha2 u (JStr x)))
   \<and> (\<forall>b. store this = Some b \<and> \<not> loose_null data \<and> truthy ss \<longrightarrow>
        saveSession u opt (JSession (JStr x) data ss) this
          = (if truthy (fst (bk_save b (getSecureSid u opt (JStr x))
                              (encryptData u opt (JStr x) data) (bk_state b)))
             then [fst (bk_save b (getSecureSid u opt (JStr x))
                              (encryptData u opt (JStr x) data) (bk_state b))]
             else [JNull, JBool True],
             this\<lparr>store := Some (b\<lparr>bk_state :=
                      snd (bk_save b (getSecureSid u opt (JStr x))
                              (encryptData u opt (JStr x) data) (bk_state b))\<rparr>),
                  calls := calls this
                    @ [Save (getSecureSid u opt (JStr x)) (encryptData u opt (JStr x) data)]\<rparr>))
   \<and> (\<forall>b. store this = Some b \<longrightarrow>
        destroySession u opt (JStr x) this
          = (fst (bk_destroy b (getSecureSid u opt (JStr x)) (bk_state b)),
             this\<lparr>store := Some (b\<lparr>bk_state :=
                      snd (bk_destroy b (getSecureSid u opt (JStr x)) (bk_state b))\<rparr>),
                  calls := calls this @ [Destroy (getSecureSid u opt (JStr x))]\<rparr>)
        \<and> destroySession u opt (JSession (JStr x) data ss) this
          = destroySession u opt (JStr x) this)
   \<and> (\<forall>b. store this = Some b \<longrightarrow>
        fst (readSession u opt (JStr x) sbo this)
          = (case fst (bk_read b (getSecureSid u opt (JStr x)) (bk_state b)) of
               (e, record) \<Rightarrow>
                 if truthy e then Inr [e]
                 else (case fst (decryptData u (JStr x) record) of
                         Inl t \<Rightarrow> Inl t
                       | Inr d \<Rightarrow>
                           Inr [JNull,
                                if truthy d \<and> sbo \<noteq> JBool False
                                then new_SessionData u (JStr x) d else d]))
        \<and> store (snd (readSession u opt (JStr x) sbo this))
          = Some (b\<lparr>bk_state := snd (bk_read b (getSecureSid u opt (JStr x)) (bk_state b))\<rparr>)
        \<and> calls (snd (readSession u opt (JStr x) sbo this))
          = calls this @ [Read (getSecureSid u opt (JStr x))]
        \<and> readSession u opt (JSession (JStr x) data ss) sbo this
          = readSession u opt (JStr x) sbo this)"
proof (intro conjI allI impI)
  fix b
  assume "store this = Some b \<and> \<not> loose_null data \<and> truthy ss"
  moreover from this have "typeof_js data \<noteq> ''undefined''"
    by (cases data) auto
  ultimately show "saveSession u opt (JSession (JStr x) data ss) this
          = (if truthy (fst (bk_save b (getSecureSid u opt (JStr x))
                              (encryptData u opt (JStr x) data) (bk_state b)))
             then [fst (bk_save b (getSecureSid u opt (JStr x))
                              (encryptData u opt (JStr x) data) (bk_state b))]
             else [JNull, JBool True],
             this\<lparr>store := Some (b\<lparr>bk_state :=
                      snd (bk_save b (getSecureSid u opt (JStr x))
                              (encryptData u opt (JStr x) data) (bk_state b))\<rparr>),
                  calls := calls this
                    @ [Save (getSecureSid u opt (JStr x)) (encryptData u opt (JStr x) data)]\<rparr>)"
    by (simp add: saveSession_def split: prod.splits)
next
  fix b
  assume h: "store this = Some b"
  then show "destroySession u opt (JStr x) this
          = (fst (bk_destroy b (getSecureSid u opt (JStr x)) (bk_state b)),
             this\<lparr>store := Some (b\<lparr>bk_state :=
                      snd (bk_destroy b (getSecureSid u opt (JStr x)) (bk_state b))\<rparr>),
                  calls := calls this @ [Destroy (getSecureSid u opt (JStr x))]\<rparr>)"
    by (simp add: destroySession_def Let_def split: prod.splits)
  from h show "destroySession u opt (JSession (JStr x) data ss) this
      = destroySession u opt (JStr x) this"
    by (simp add: destroySession_def)
next
  fix b
  assume h: "store this = Some b"
  then show "fst (readSession u opt (JStr x) sbo this)
          = (case fst (bk_read b (getSecureSid u opt (JStr x)) (bk_state b)) of
               (e, record) \<Rightarrow>
                 if truthy e then Inr [e]
                 else (case fst (decryptData u (JStr x) record) of
                         Inl t \<Rightarrow> Inl t
                       | Inr d \<Rightarrow>
                           Inr [JNull,
                                if truthy d \<and> sbo \<noteq> JBool False
                                then new_SessionData u (JStr x) d else d]))"
    by (simp add: readSession_def Let_def split: prod.splits sum.splits)
  from h show "store (snd (readSession u opt (JStr x) sbo this))
      = Some (b\<lparr>bk_state := snd (bk_read b (getSecureSid u opt (JStr x)) (bk_state b))\<rparr>)"
    by (simp add: readSession_def Let_def split: prod.splits sum.splits)
  from h show "calls (snd (readSession u opt (JStr x) sbo this))
      = calls this @ [Read (getSecureSid u opt (JStr x))]"
    by (simp add: readSession_def Let_def split: prod.splits sum.splits)
  from h show "readSession u opt (JSession (JStr x) data ss) sbo this
      = readSession u opt (JStr x) sbo this"
    by (simp add: readSession_def)
qed (simp_all add: getSecureSid_def)

theorem storage_key_uniform_witness:
  "\<not> truthy (js_prop opt_plain ''encrypt'')
   \<and> getSecureSid demo_util opt_plain (JStr ''k'') = JStr ''k''
   \<and> truthy (js_prop opt_encrypt ''encrypt'')
   \<and> getSecureSid demo_util opt_encrypt (JStr ''k'') = JStr ''6b''
   \<and> store ready_store = Some mem_backend
   \<and> \<not> loose_null (JArr [JNum 1, JNum 2])
   \<and> truthy (JBool True)
   \<and> saveSession demo_util opt_encrypt
        (JSession (JStr ''k'') (JArr [JNum 1, JNum 2]) (JBool True)) ready_store
       = ([JNull, JBool True],
          ready_store\<lparr>store := Some (mem_backend\<lparr>bk_state :=
                          [(JStr ''6b'', JStr ''#5c322d335e'')]\<rparr>),
                       calls := [Save (JStr ''6b'') (JStr ''#5c322d335e'')]\<rparr>)
   \<and> fst (readSession demo_util opt_encrypt (JStr ''k'') (JBool False)
        (ready_store\<lparr>store := Some (mem_backend\<lparr>bk_state :=
                          [(JStr ''6b'', JStr ''#5c322d335e'')]\<rparr>)\<rparr>))
       = Inr [JNull, JObj []]
   \<and> calls (snd (readSession demo_util opt_encrypt (JStr ''k'') (JBool False)
        (ready_store\<lparr>store := Some (mem_backend\<lparr>bk_state :=
                          [(JStr ''6b'', JStr ''#5c322d335e'')]\<rparr>)\<rparr>)))
       = [Read (JStr ''6b'')]
   \<and> fst (readSession demo_util opt_encrypt (JStr ''j'') (JBool False)
        (ready_store\<lparr>store := Some (mem_backend\<lparr>bk_state :=
                          [(JStr ''6b'', JStr ''#5c322d335e'')]\<rparr>)\<rparr>))
       = Inr [JNull, JNull]
   \<and> destroySession demo_util opt_encrypt (JStr ''k'')
        (ready_store\<lparr>store := Some (mem_backend\<lparr>bk_state :=
                          [(JStr ''6b'', JStr ''#5c322d335e'')]\<rparr>)\<rparr>)
       = ([JNull],
          ready_store\<lparr>store := Some (mem_backend\<lparr>bk_state := []\<rparr>),
                       calls := [Destroy (JStr ''6b'')]\<rparr>)
   \<and> destroySession demo_util opt_encrypt (JSession (JStr ''k'') JNull JNull)
        (ready_store\<lparr>store := Some (mem_backend\<lparr>bk_state :=
                          [(JStr ''6b'', JStr ''#5c322d335e'')]\<rparr>)\<rparr>)
       = destroySession demo_util opt_encrypt (JStr ''k'')
        (ready_store\<lparr>store := Some (mem_backend\<lparr>bk_state :=
                          [(JStr ''6b'', JStr ''#5c322d335e'')]\<rparr>)\<rparr>)
   \<and> fst (readSession demo_util opt_plain (JStr ''k'') (JBool False)
        (ready_store\<lparr>store := Some (mem_backend\<lparr>bk_state :=
                          [(JStr ''k'', JArr [JNum 1, JNum 2])]\<rparr>)\<rparr>))
       = Inr [JNull, JArr [JNum 1, JNum 2]]
   \<and> readSession demo_util opt_plain (JSession (JStr ''k'') JNull JNull) (JBool False)
        (ready_store\<lparr>store := Some (mem_backend\<lparr>bk_state :=
                          [(JStr ''k'', JArr [JNum 1, JNum 2])]\<rparr>)\<rparr>)
       = readSession demo_util opt_plain (JStr ''k'') (JBool False)
        (ready_store\<lparr>store := Some (mem_backend\<lparr>bk_state :=
                          [(JStr ''k'', JArr [JNum 1, JNum 2])]\<rparr>)\<rparr>)"
proof -
  let ?obj = "JSession (JStr ''k'') (JArr [JNum 1, JNum 2]) (JBool True)"
  let ?be = "mem_backend\<lparr>bk_state := [(JStr ''6b'', JStr ''#5c322d335e'')]\<rparr>"
  let ?se = "ready_store\<lparr>store := Some ?be\<rparr>"
  let ?bp = "mem_backend\<lparr>bk_state := [(JStr ''k'', JArr [JNum 1, JNum 2])]\<rparr>"
  let ?sp = "ready_store\<lparr>store := Some ?bp\<rparr>"
  have p: "\<not> truthy (js_prop opt_plain ''encrypt'')"
    by (simp add: opt_plain_def)
  have e: "truthy (js_prop opt_encrypt ''encrypt'')"
    by (simp add: opt_encrypt_def)
  have r: "store ready_store = Some mem_backend"
    by (simp add: ready_store_def)
  have re: "store ?se = Some ?be" and rp: "store ?sp = Some ?bp"
    by simp_all
  have c0: "calls ready_store = []" "calls ?se = []"
    by (simp_all add: ready_store_def)
  have t: "\<not> loose_null (JArr [JNum 1, JNum 2])" "truthy (JBool True)"
    by simp_all
  have h: "sha2 demo_util (JStr ''k'') = ''6b''" and hj: "sha2 demo_util (JStr ''j'') = ''6a''"
    by code_simp+
  have x: "encryptData demo_util opt_encrypt (JStr ''k'') (JArr [JNum 1, JNum 2])
      = JStr ''#5c322d335e''"
    by code_simp
  have dz: "decrypt demo_util ''#5c322d335e'' (JStr ''k'') = None"
    by code_simp
  have sv: "bk_save mem_backend (JStr ''6b'') (JStr ''#5c322d335e'') (bk_state mem_backend)
      = (JNull, [(JStr ''6b'', JStr ''#5c322d335e'')])"
    by (simp add: mem_backend_def)
  have rd: "bk_read mem_backend (JStr ''6b'') [(JStr ''6b'', JStr ''#5c322d335e'')]
      = ((JNull, JStr ''#5c322d335e''), [(JStr ''6b'', JStr ''#5c322d335e'')])"
    and rdj: "bk_read mem_backend (JStr ''6a'') [(JStr ''6b'', JStr ''#5c322d335e'')]
      = ((JNull, JNull), [(JStr ''6b'', JStr ''#5c322d335e'')])"
    and ds: "bk_destroy mem_backend (JStr ''6b'') [(JStr ''6b'', JStr ''#5c322d335e'')]
      = ([JNull], [])"
    and rdp: "bk_read mem_backend (JStr ''k'') [(JStr ''k'', JArr [JNum 1, JNum 2])]
      = ((JNull, JArr [JNum 1, JNum 2]), [(JStr ''k'', JArr [JNum 1, JNum 2])])"
    by (simp_all add: mem_backend_def)
  have de: "fst (decryptData demo_util (JStr ''k'') (JStr ''#5c322d335e'')) = Inr (JObj [])"
    using dz by (simp add: decryptData_def ENC_SPLIT_def)
  have dn: "fst (decryptData demo_util (JStr ''j'') JNull) = Inr JNull"
    and dp: "fst (decryptData demo_util (JStr ''k'') (JArr [JNum 1, JNum 2]))
      = Inr (JArr [JNum 1, JNum 2])"
    by (simp_all add: decryptData_def)
  have k1: "getSecureSid demo_util opt_plain (JStr ''k'') = JStr ''k''"
    using storage_key_uniform [of opt_plain demo_util "''k''"] p by blast
  have "getSecureSid demo_util opt_encrypt (JStr ''k'') = JStr (sha2 demo_util (JStr ''k''))"
    using storage_key_uniform [of opt_encrypt demo_util "''k''"] e by blast
  with h have k2: "getSecureSid demo_util opt_encrypt (JStr ''k'') = JStr ''6b''"
    by simp
  have "getSecureSid demo_util opt_encrypt (JStr ''j'') = JStr (sha2 demo_util (JStr ''j''))"
    using storage_key_uniform [of opt_encrypt demo_util "''j''"] e by blast
  with hj have k3: "getSecureSid demo_util opt_encrypt (JStr ''j'') = JStr ''6a''"
    by simp
  have "saveSession demo_util opt_encrypt ?obj ready_store
      = (if truthy (fst (bk_save mem_backend (getSecureSid demo_util opt_encrypt (JStr ''k''))
                (encryptData demo_util opt_encrypt (JStr ''k'') (JArr [JNum 1, JNum 2]))
                (bk_state mem_backend)))
         then [fst (bk_save mem_backend (getSecureSid demo_util opt_encrypt (JStr ''k''))
                (encryptData demo_util opt_encrypt (JStr ''k'') (JArr [JNum 1, JNum 2]))
                (bk_state mem_backend))]
         else [JNull, JBool True],
         ready_store\<lparr>store := Some (mem_backend\<lparr>bk_state :=
              snd (bk_save mem_backend (getSecureSid demo_util opt_encrypt (JStr ''k''))
                (encryptData demo_util opt_encrypt (JStr ''k'') (JArr [JNum 1, JNum 2]))
                (bk_state mem_backend))\<rparr>),
            calls := calls ready_store
              @ [Save (getSecureSid demo_util opt_encrypt (JStr ''k''))
                   (encryptData demo_util opt_encrypt (JStr ''k'') (JArr [JNum 1, JNum 2]))]\<rparr>)"
    using storage_key_uniform [of opt_encrypt demo_util "''k''" ready_store
        "JArr [JNum 1, JNum 2]" "JBool True"] r t by blast
  then have s1: "saveSession demo_util opt_encrypt ?obj ready_store
      = ([JNull, JBool True],
         ready_store\<lparr>store := Some ?be,
                      calls := [Save (JStr ''6b'') (JStr ''#5c322d335e'')]\<rparr>)"
    by (simp add: k2 x sv c0)
  note ue = storage_key_uniform [of opt_encrypt demo_util "''k''" ?se JNull JNull "JBool False"]
  have s2: "fst (readSession demo_util opt_encrypt (JStr ''k'') (JBool False) ?se)
      = Inr [JNull, JObj []]"
  proof -
    have "fst (readSession demo_util opt_encrypt (JStr ''k'') (JBool False) ?se)
      = (case fst (bk_read ?be (getSecureSid demo_util opt_encrypt (JStr ''k'')) (bk_state ?be)) of
           (e, record) \<Rightarrow>
             if truthy e then Inr [e]
             else (case fst (decryptData demo_util (JStr ''k'') record) of
                     Inl t \<Rightarrow> Inl t
                   | Inr d \<Rightarrow>
                       Inr [JNull,
                            if truthy d \<and> JBool False \<noteq> JBool False
                            then new_SessionData demo_util (JStr ''k'') d else d]))"
      using ue re by blast
    then show ?thesis
      by (simp add: k2 rd de)
  qed
  have s3: "calls (snd (readSession demo_util opt_encrypt (JStr ''k'') (JBool False) ?se))
      = [Read (JStr ''6b'')]"
  proof -
    have "calls (snd (readSession demo_util opt_encrypt (JStr ''k'') (JBool False) ?se))
      = calls ?se @ [Read (getSecureSid demo_util opt_encrypt (JStr ''k''))]"
      using ue re by blast
    then show ?thesis
      by (simp add: k2 c0)
  qed
  have s4: "fst (readSession demo_util opt_encrypt (JStr ''j'') (JBool False) ?se)
      = Inr [JNull, JNull]"
  proof -
    have "fst (readSession demo_util opt_encrypt (JStr ''j'') (JBool False) ?se)
      = (case fst (bk_read ?be (getSecureSid demo_util opt_encrypt (JStr ''j'')) (bk_state ?be)) of
           (e, record) \<Rightarrow>
             if truthy e then Inr [e]
             else (case fst (decryptData demo_util (JStr ''j'') record) of
                     Inl t \<Rightarrow> Inl t
                   | Inr d \<Rightarrow>
                       Inr [JNull,
                            if truthy d \<and> JBool False \<noteq> JBool False
                            then new_SessionData demo_util (JStr ''j'') d else d]))"
      using storage_key_uniform [of opt_encrypt demo_util "''j''" ?se JNull JNull "JBool False"]
        re by blast
    then show ?thesis
      by (simp add: k3 rdj dn)
  qed
  have s5: "destroySession demo_util opt_encrypt (JStr ''k'') ?se
      = ([JNull],
         ready_store\<lparr>store := Some (mem_backend\<lparr>bk_state := []\<rparr>),
                      calls := [Destroy (JStr ''6b'')]\<rparr>)"
  proof -
    have "destroySession demo_util opt_encrypt (JStr ''k'') ?se
      = (fst (bk_destroy ?be (getSecureSid demo_util opt_encrypt (JStr ''k'')) (bk_state ?be)),
         ?se\<lparr>store := Some (?be\<lparr>bk_state :=
                  snd (bk_destroy ?be (getSecureSid demo_util opt_encrypt (JStr ''k''))
                         (bk_state ?be))\<rparr>),
              calls := calls ?se @ [Destroy (getSecureSid demo_util opt_encrypt (JStr ''k''))]\<rparr>)"
      using ue re by blast
    then show ?thesis
      by (simp add: k2 ds c0)
  qed
  have s6: "destroySession demo_util opt_encrypt (JSession (JStr ''k'') JNull JNull) ?se
      = destroySession demo_util opt_encrypt (JStr ''k'') ?se"
    using ue re by blast
  note up = storage_key_uniform [of opt_plain demo_util "''k''" ?sp JNull JNull "JBool False"]
  have s7: "fst (readSession demo_util opt_plain (JStr ''k'') (JBool False) ?sp)
      = Inr [JNull, JArr [JNum 1, JNum 2]]"
  proof -
    have "fst (readSession demo_util opt_plain (JStr ''k'') (JBool False) ?sp)
      = (case fst (bk_read ?bp (getSecureSid demo_util opt_plain (JStr ''k'')) (bk_state ?bp)) of
           (e, record) \<Rightarrow>
             if truthy e then Inr [e]
             else (case fst (decryptData demo_util (JStr ''k'') record) of
                     Inl t \<Rightarrow> Inl t
                   | Inr d \<Rightarrow>
                       Inr [JNull,
                            if truthy d \<and> JBool False \<noteq> JBool False
                            then new_SessionData demo_util (JStr ''k'') d else d]))"
      using up rp by blast
    then show ?thesis
      by (simp add: k1 rdp dp)
  qed
  have s8: "readSession demo_util opt_plain (JSession (JStr ''k'') JNull JNull) (JBool False) ?sp
      = readSession demo_util opt_plain (JStr ''k'') (JBool False) ?sp"
    using up rp by blast
  from p e r t k1 k2 s1 s2 s3 s4 s5 s6 s7 s8 show ?thesis by blast
qed

section \<open>Reading with encryption turned off\<close>

text \<open>
  C10 (as stated it fails). The claim ends: records written while encryption was
  enabled are still decrypted after encryption is turned off. A record saved with
  encryption enabled lies under the hashed key; with encryption off \<^verbatim>\<open>readSession\<close>
  asks the backend for the raw identifier, finds nothing and completes with no data,
  without any attempt to decrypt.
\<close>

theorem read_after_encryption_turned_off:
  "calls (snd (saveSession demo_util opt_encrypt
        (JSession (JStr ''k'') (JArr [JNum 1, JNum 2]) (JBool True)) ready_store))
     = [Save (JStr ''6b'') (JStr ''#5c322d335e'')]
   \<and> fst (readSession demo_util opt_plain (JStr ''k'') (JBool False)
        (snd (saveSession demo_util opt_encrypt
           (JSession (JStr ''k'') (JArr [JNum 1, JNum 2]) (JBool True)) ready_store)))
     = Inr [JNull, JNull]
   \<and> calls (snd (readSession demo_util opt_plain (JStr ''k'') (JBool False)
        (snd (saveSession demo_util opt_encrypt
           (JSession (JStr ''k'') (JArr [JNum 1, JNum 2]) (JBool True)) ready_store))))
     = [Save (JStr ''6b'') (JStr ''#5c322d335e''), Read (JStr ''k'')]
   \<and> logged (snd (readSession demo_util opt_plain (JStr ''k'') (JBool False)
        (snd (saveSession demo_util opt_encrypt
           (JSession (JStr ''k'') (JArr [JNum 1, JNum 2]) (JBool True)) ready_store))))
     = []"
  by code_simp

text \<open>
  C10 (amended). \<^verbatim>\<open>decryptData\<close> does not consult the options. Whatever
  \<^verbatim>\<open>opt.encrypt\<close> is, when the backend answers the read of the storage key of a raw
  identifier with a string that begins with the marker, \<^verbatim>\<open>readSession\<close> passes that
  record and the identifier to \<^verbatim>\<open>thorin.util.decrypt\<close> and completes with the
  outcome of \<^verbatim>\<open>decryptData\<close>: the empty object when decryption fails, the decrypted
  text when it does not parse, the parsed value otherwise (wrapped in a
  \<^verbatim>\<open>SessionData\<close> unless the value is falsy or the caller passed \<^verbatim>\<open>false\<close>).
\<close>

theorem readSession_decrypts_marked_record:
  assumes "store this = Some b"
    and "\<not> instanceof_SessionData sid"
    and "bk_read b (getSecureSid u opt sid) (bk_state b) = ((e, JStr (ENC_SPLIT # c)), st)"
    and "\<not> truthy e"
  shows "\<exists>d. fst (decryptData u sid (JStr (ENC_SPLIT # c))) = Inr d
    \<and> d = (case decrypt u (ENC_SPLIT # c) sid of
             None \<Rightarrow> JObj []
           | Some t \<Rightarrow> (case json_parse u t of Inl x \<Rightarrow> JStr t | Inr v \<Rightarrow> v))
    \<and> fst (readSession u opt sid sbo this)
        = Inr [JNull, if truthy d \<and> sbo \<noteq> JBool False then new_SessionData u sid d else d]"
proof -
  define d where "d = (case decrypt u (ENC_SPLIT # c) sid of
             None \<Rightarrow> JObj []
           | Some t \<Rightarrow> (case json_parse u t of Inl x \<Rightarrow> JStr t | Inr v \<Rightarrow> v))"
  have dd: "fst (decryptData u sid (JStr (ENC_SPLIT # c))) = Inr d"
    by (simp add: decryptData_def d_def split: option.splits sum.splits)
  then obtain lg where "decryptData u sid (JStr (ENC_SPLIT # c)) = (Inr d, lg)"
    by (cases "decryptData u sid (JStr (ENC_SPLIT # c))") simp
  with assms have "fst (readSession u opt sid sbo this)
      = Inr [JNull, if truthy d \<and> sbo \<noteq> JBool False then new_SessionData u sid d else d]"
    by (simp add: readSession_def)
  with dd d_def show ?thesis by blast
qed

theorem readSession_decrypts_marked_record_witness:
  "store (ready_store\<lparr>store := Some (mem_backend\<lparr>bk_state := [(JStr ''k'', JStr ''#[1,2]'')]\<rparr>)\<rparr>)
     = Some (mem_backend\<lparr>bk_state := [(JStr ''k'', JStr ''#[1,2]'')]\<rparr>)
   \<and> \<not> truthy (js_prop opt_plain ''encrypt'')
   \<and> \<not> instanceof_SessionData (JStr ''k'')
   \<and> bk_read (mem_backend\<lparr>bk_state := [(JStr ''k'', JStr ''#[1,2]'')]\<rparr>)
        (getSecureSid lenient_util opt_plain (JStr ''k''))
        (bk_state (mem_backend\<lparr>bk_state := [(JStr ''k'', JStr ''#[1,2]'')]\<rparr>))
       = ((JNull, JStr (ENC_SPLIT # ''[1,2]'')), [(JStr ''k'', JStr ''#[1,2]'')])
   \<and> \<not> truthy JNull
   \<and> fst (readSession lenient_util opt_plain (JStr ''k'') (JBool False)
        (ready_store\<lparr>store := Some (mem_backend\<lparr>bk_state := [(JStr ''k'', JStr ''#[1,2]'')]\<rparr>)\<rparr>))
       = Inr [JNull, JArr [JNum 1, JNum 2]]
   \<and> fst (readSession demo_util opt_plain (JStr ''k'') (JBool False)
        (ready_store\<lparr>store := Some (mem_backend\<lparr>bk_state := [(JStr ''k'', JStr ''#[1,2]'')]\<rparr>)\<rparr>))
       = Inr [JNull, JObj []]"
proof -
  let ?b = "mem_backend\<lparr>bk_state := [(JStr ''k'', JStr ''#[1,2]'')]\<rparr>"
  let ?st = "ready_store\<lparr>store := Some ?b\<rparr>"
  have h1: "store ?st = Some ?b"
    by simp
  have h2: "\<not> instanceof_SessionData (JStr ''k'')"
    by simp
  have p: "\<not> truthy (js_prop opt_plain ''encrypt'')"
    by (simp add: opt_plain_def)
  have h3: "bk_read ?b (getSecureSid lenient_util opt_plain (JStr ''k'')) (bk_state ?b)
      = ((JNull, JStr (ENC_SPLIT # ''[1,2]'')), [(JStr ''k'', JStr ''#[1,2]'')])"
    using p by (simp add: mem_backend_def getSecureSid_def ENC_SPLIT_def)
  have h3': "bk_read ?b (getSecureSid demo_util opt_plain (JStr ''k'')) (bk_state ?b)
      = ((JNull, JStr (ENC_SPLIT # ''[1,2]'')), [(JStr ''k'', JStr ''#[1,2]'')])"
    using p by (simp add: mem_backend_def getSecureSid_def ENC_SPLIT_def)
  have h4: "\<not> truthy JNull"
    by simp
  have d1: "decrypt lenient_util (ENC_SPLIT # ''[1,2]'') (JStr ''k'') = Some ''[1,2]''"
    by (simp add: lenient_util_def)
  have d2: "json_parse lenient_util ''[1,2]'' = Inr (JArr [JNum 1, JNum 2])"
    by (simp add: lenient_util_def demo_util_def demo_json_parse_def)
  have d3: "decrypt demo_util (ENC_SPLIT # ''[1,2]'') (JStr ''k'') = None"
    by code_simp
  have r1: "fst (readSession lenient_util opt_plain (JStr ''k'') (JBool False) ?st)
      = Inr [JNull, JArr [JNum 1, JNum 2]]"
    using readSession_decrypts_marked_record [OF h1 h2 h3 h4, of "JBool False"] d1 d2
    by auto
  have r2: "fst (readSession demo_util opt_plain (JStr ''k'') (JBool False) ?st)
      = Inr [JNull, JObj []]"
    using readSession_decrypts_marked_record [OF h1 h2 h3' h4, of "JBool False"] d3
    by auto
  from h1 h2 p h3 h4 r1 r2 show ?thesis by blast
qed

end
